theory Spec2Isabelle
  imports Main
begin

section \<open>The kernel generator's indexing operation\<close>

text \<open>
  A shallow embedding of \<^verbatim>\<open>stan/math/opencl/kernel_generator/indexing.hpp\<close>: the class
  template \<^verbatim>\<open>indexing_<T_mat, T_row_index, T_col_index>\<close> and the factory
  \<^verbatim>\<open>indexing(mat, row_index, col_index)\<close>.

  The three operands are template parameters of the class: the code of \<^verbatim>\<open>indexing_\<close>
  only calls their member functions. An operand is therefore a record of its member
  functions, each a function on the state \<open>'w\<close> of the objects the operands own or refer
  to. Objects passed by reference (\<^verbatim>\<open>generated\<close>, \<^verbatim>\<open>name_gen\<close>, \<^verbatim>\<open>kernel\<close>,
  \<^verbatim>\<open>arg_num\<close>, \<^verbatim>\<open>uids\<close>, \<^verbatim>\<open>id_map\<close>, \<^verbatim>\<open>next_id\<close>) are passed in and handed
  back updated. The mutable members \<^verbatim>\<open>var_name_\<close> and \<^verbatim>\<open>generated_\<close> of the indexing
  object itself are the record \<open>indexing_state\<close>.

  A C++ \<^verbatim>\<open>int\<close> is an \<open>int\<close> here. Sizes, diagonals and the argument cursor are only
  compared and passed on. The one arithmetic of the file, the additions of access ids in
  \<^verbatim>\<open>get_unique_matrix_accesses\<close>, is the addition \<open>int_add\<close> of 32-bit integers, with
  the wrap-around written out.
\<close>

subsection \<open>Data\<close>

text \<open>An object's address (\<^verbatim>\<open>const void*\<close>), the key of the dedup maps.\<close>

type_synonym addr = nat

text \<open>\<^verbatim>\<open>std::map<const void*, const char*>\<close>\<close>

type_synonym dedup_map = "addr \<rightharpoonup> string"

text \<open>\<^verbatim>\<open>std::map<const void*, int>\<close>\<close>

type_synonym id_map = "addr \<rightharpoonup> int"

text \<open>\<^verbatim>\<open>cl::Event\<close>, by its identity.\<close>

type_synonym event = nat

text \<open>
  Modelled from the spec: \<^verbatim>\<open>kernel_parts\<close> (declared in operation_cl.hpp, which is not
  among the sources). A code fragment has a section of kernel argument declarations and
  a body section; \<^verbatim>\<open>kernel_parts{}\<close> is the empty fragment and \<^verbatim>\<open>+\<close> concatenates
  section by section. The type \<open>'c\<close> is what a section is a sequence of (characters, or
  whole statements).
\<close>

datatype 'c kernel_parts = Kernel_parts (args: "'c list") (body: "'c list")

instantiation kernel_parts :: (type) "{zero,plus}"
begin

definition zero_kernel_parts :: "'a kernel_parts" where
  "zero_kernel_parts = Kernel_parts [] []"

definition plus_kernel_parts :: "'a kernel_parts \<Rightarrow> 'a kernel_parts \<Rightarrow> 'a kernel_parts" where
  "plus_kernel_parts a b = Kernel_parts (args a @ args b) (body a @ body b)"

instance ..

end

text \<open>
  Modelled from the spec: the member functions every kernel generator operation has
  (the operation contract of operation_cl.hpp, which is not among the sources), as far
  as \<^verbatim>\<open>indexing_\<close> calls them on its operands. \<open>'n\<close> is the name generator and \<open>'k\<close>
  the OpenCL kernel; \<^verbatim>\<open>rows()\<close>, \<^verbatim>\<open>cols()\<close>, \<^verbatim>\<open>var_name_\<close> and
  \<^verbatim>\<open>get_unique_matrix_accesses\<close> read the operand, the others may change it.
\<close>

record ('w, 'n, 'k, 'c) operand =
  op_rows :: "'w \<Rightarrow> int"
  op_cols :: "'w \<Rightarrow> int"
  op_var_name :: "'w \<Rightarrow> string"
  op_get_kernel_parts ::
    "dedup_map \<Rightarrow> 'n \<Rightarrow> string \<Rightarrow> string \<Rightarrow> bool \<Rightarrow> 'w \<Rightarrow> 'c kernel_parts \<times> dedup_map \<times> 'n \<times> 'w"
  op_get_kernel_parts_lhs ::
    "dedup_map \<Rightarrow> 'n \<Rightarrow> string \<Rightarrow> string \<Rightarrow> 'w \<Rightarrow> 'c kernel_parts \<times> dedup_map \<times> 'n \<times> 'w"
  op_set_args :: "dedup_map \<Rightarrow> 'k \<Rightarrow> int \<Rightarrow> 'w \<Rightarrow> dedup_map \<times> 'k \<times> int \<times> 'w"
  op_set_view :: "int \<Rightarrow> int \<Rightarrow> int \<Rightarrow> int \<Rightarrow> 'w \<Rightarrow> 'w"
  op_add_read_event :: "event \<Rightarrow> 'w \<Rightarrow> 'w"
  op_add_write_event :: "event \<Rightarrow> 'w \<Rightarrow> 'w"
  op_get_unique_matrix_accesses :: "int list \<Rightarrow> id_map \<Rightarrow> int \<Rightarrow> 'w \<Rightarrow> int list \<times> id_map \<times> int"

text \<open>
  An \<^verbatim>\<open>indexing_\<close> object: its address \<^verbatim>\<open>this\<close> and its three operands,
  \<^verbatim>\<open>get_arg<0>()\<close>, \<^verbatim>\<open>get_arg<1>()\<close> and \<^verbatim>\<open>get_arg<2>()\<close>.
\<close>

record ('w, 'n, 'k, 'c) indexing_ =
  this_ptr :: addr
  mat :: "('w, 'n, 'k, 'c) operand"
  row_index :: "('w, 'n, 'k, 'c) operand"
  col_index :: "('w, 'n, 'k, 'c) operand"

text \<open>
  The mutable members \<^verbatim>\<open>var_name_\<close> and \<^verbatim>\<open>generated_\<close> of an \<^verbatim>\<open>indexing_\<close>
  object (a constant's name cannot end in an underscore).
\<close>

record indexing_state =
  m_var_name :: string
  m_generated :: dedup_map

definition initial_state :: indexing_state where
  "initial_state = \<lparr>m_var_name = [], m_generated = Map.empty\<rparr>"

subsection \<open>Construction\<close>

text \<open>
  \<^verbatim>\<open>std::invalid_argument\<close> as thrown by \<^verbatim>\<open>check_size_match\<close>, with the arguments of
  the failed check.
\<close>

datatype error = Invalid_argument string string string int string string int

text \<open>
  Modelled from the spec: \<^verbatim>\<open>check_size_match\<close> (prim/err, not among the sources), the
  size-check utility that takes a context label and two labelled values and fails with
  an invalid-dimension error when the values differ.
\<close>

definition check_size_match ::
  "string \<Rightarrow> string \<Rightarrow> string \<Rightarrow> int \<Rightarrow> string \<Rightarrow> string \<Rightarrow> int \<Rightarrow> error + unit" where
  "check_size_match fn name_i expr_i i name_j expr_j j =
     (if i \<noteq> j then Inl (Invalid_argument fn name_i expr_i i name_j expr_j j) else Inr ())"

text \<open>
  The constructor. \<open>dynamic\<close> is \<^verbatim>\<open>base::dynamic\<close>, a constant of operation_cl.hpp, which
  is not among the sources; \<open>a\<close> is the address at which the object is constructed, and
  \<open>w\<close> the state in which the operands report their sizes. An exception leaves no object.
\<close>

definition indexing_ctor ::
  "int \<Rightarrow> addr \<Rightarrow> ('w, 'n, 'k, 'c) operand \<Rightarrow> ('w, 'n, 'k, 'c) operand \<Rightarrow> ('w, 'n, 'k, 'c) operand \<Rightarrow>
   'w \<Rightarrow> error + ('w, 'n, 'k, 'c) indexing_" where
  "indexing_ctor dynamic a m r c w =
     (case (if op_rows c w \<noteq> dynamic \<and> op_rows r w \<noteq> dynamic
            then check_size_match ''indexing'' ''Rows of '' ''col_index'' (op_rows c w)
                   ''rows of '' ''row_index'' (op_rows r w)
            else Inr ()) of
        Inl e \<Rightarrow> Inl e
      | Inr _ \<Rightarrow>
         (case (if op_cols c w \<noteq> dynamic \<and> op_cols r w \<noteq> dynamic
                then check_size_match ''indexing'' ''Columns of '' ''col_index'' (op_cols c w)
                       ''columns of '' ''row_index'' (op_cols r w)
                else Inr ()) of
            Inl e \<Rightarrow> Inl e
          | Inr _ \<Rightarrow> Inr \<lparr>this_ptr = a, mat = m, row_index = r, col_index = c\<rparr>))"

subsection \<open>Shape\<close>

definition rows :: "('w, 'n, 'k, 'c) indexing_ \<Rightarrow> 'w \<Rightarrow> int" where
  "rows node w = max (op_rows (row_index node) w) (op_rows (col_index node) w)"

definition cols :: "('w, 'n, 'k, 'c) indexing_ \<Rightarrow> 'w \<Rightarrow> int" where
  "cols node w = max (op_cols (row_index node) w) (op_cols (col_index node) w)"

subsection \<open>Code generation\<close>

text \<open>
  \<^verbatim>\<open>get_kernel_parts\<close>, the read path. The index operands are generated against the
  caller's map \<^verbatim>\<open>generated\<close>, the matrix operand against the member \<^verbatim>\<open>generated_\<close>
  and with the index operands' variable names in place of the row and column index names.
\<close>

definition get_kernel_parts ::
  "('w, 'n, 'k, 'c) indexing_ \<Rightarrow> dedup_map \<Rightarrow> 'n \<Rightarrow> string \<Rightarrow> string \<Rightarrow> bool \<Rightarrow>
   indexing_state \<times> 'w \<Rightarrow> 'c kernel_parts \<times> dedup_map \<times> 'n \<times> indexing_state \<times> 'w" where
  "get_kernel_parts node generated name_gen row_index_name col_index_name view_handled s =
     (case s of (st, w) \<Rightarrow>
        if generated (this_ptr node) = None then
          let generated = generated(this_ptr node \<mapsto> []);
              st = st\<lparr>m_generated := Map.empty\<rparr>;
              (parts_row_idx, generated, name_gen, w) =
                 op_get_kernel_parts (row_index node) generated name_gen
                   row_index_name col_index_name view_handled w;
              (parts_col_idx, generated, name_gen, w) =
                 op_get_kernel_parts (col_index node) generated name_gen
                   row_index_name col_index_name view_handled w;
              (parts_mat, generated', name_gen, w) =
                 op_get_kernel_parts (mat node) (m_generated st) name_gen
                   (op_var_name (row_index node) w) (op_var_name (col_index node) w) False w;
              st = st\<lparr>m_generated := generated'\<rparr>;
              res = parts_row_idx + parts_col_idx + parts_mat;
              st = st\<lparr>m_var_name := op_var_name (mat node) w\<rparr>
          in (res, generated, name_gen, st, w)
        else (0, generated, name_gen, st, w))"

text \<open>
  \<^verbatim>\<open>get_kernel_parts_lhs\<close>, the write path: only the marking of the node and the
  clearing of \<^verbatim>\<open>generated_\<close> are under the test of \<^verbatim>\<open>generated\<close>.
\<close>

definition get_kernel_parts_lhs ::
  "('w, 'n, 'k, 'c) indexing_ \<Rightarrow> dedup_map \<Rightarrow> 'n \<Rightarrow> string \<Rightarrow> string \<Rightarrow>
   indexing_state \<times> 'w \<Rightarrow> 'c kernel_parts \<times> dedup_map \<times> 'n \<times> indexing_state \<times> 'w" where
  "get_kernel_parts_lhs node generated name_gen row_index_name col_index_name s =
     (case s of (st, w) \<Rightarrow>
        let (generated, st) =
               (if generated (this_ptr node) = None
                then (generated(this_ptr node \<mapsto> []), st\<lparr>m_generated := Map.empty\<rparr>)
                else (generated, st));
            (parts_row_idx, generated, name_gen, w) =
               op_get_kernel_parts (row_index node) generated name_gen
                 row_index_name col_index_name False w;
            (parts_col_idx, generated, name_gen, w) =
               op_get_kernel_parts (col_index node) generated name_gen
                 row_index_name col_index_name False w;
            (parts_mat, generated', name_gen, w) =
               op_get_kernel_parts_lhs (mat node) (m_generated st) name_gen
                 (op_var_name (row_index node) w) (op_var_name (col_index node) w) w;
            st = st\<lparr>m_generated := generated'\<rparr>;
            res = parts_row_idx + parts_col_idx + parts_mat;
            st = st\<lparr>m_var_name := op_var_name (mat node) w\<rparr>
        in (res, generated, name_gen, st, w))"

subsection \<open>Argument binding\<close>

text \<open>\<^verbatim>\<open>set_args\<close>: \<^verbatim>\<open>generated2\<close> is a local map, empty at the call and dropped after it.\<close>

definition set_args ::
  "('w, 'n, 'k, 'c) indexing_ \<Rightarrow> dedup_map \<Rightarrow> 'k \<Rightarrow> int \<Rightarrow> 'w \<Rightarrow> dedup_map \<times> 'k \<times> int \<times> 'w" where
  "set_args node generated kernel' arg_num w =
     (if generated (this_ptr node) = None then
        let generated = generated(this_ptr node \<mapsto> []);
            (generated, kernel', arg_num, w) =
               op_set_args (row_index node) generated kernel' arg_num w;
            (generated, kernel', arg_num, w) =
               op_set_args (col_index node) generated kernel' arg_num w;
            generated2 = Map.empty;
            (generated2, kernel', arg_num, w) =
               op_set_args (mat node) generated2 kernel' arg_num w
        in (generated, kernel', arg_num, w)
      else (generated, kernel', arg_num, w))"

subsection \<open>Views, events and matrix accesses\<close>

text \<open>\<^verbatim>\<open>std::numeric_limits<int>::min()\<close> and \<^verbatim>\<open>max()\<close> of a 32-bit \<^verbatim>\<open>int\<close>.\<close>

definition int_min :: int where
  "int_min = - 2147483648"

definition int_max :: int where
  "int_max = 2147483647"

text \<open>
  The addition of two \<^verbatim>\<open>int\<close>: the sum where it is an \<^verbatim>\<open>int\<close>, and wrapped around into
  the range of the 32-bit integers where it is not.
\<close>

definition int_add :: "int \<Rightarrow> int \<Rightarrow> int" where
  "int_add a b = (a + b - int_min) mod 2 ^ 32 + int_min"

definition set_view ::
  "('w, 'n, 'k, 'c) indexing_ \<Rightarrow> int \<Rightarrow> int \<Rightarrow> int \<Rightarrow> int \<Rightarrow> 'w \<Rightarrow> 'w" where
  "set_view node bottom_diagonal top_diagonal bottom_zero_diagonal top_zero_diagonal w =
     op_set_view (mat node) int_min int_max int_min int_max w"

definition extreme_diagonals :: "('w, 'n, 'k, 'c) indexing_ \<Rightarrow> int \<times> int" where
  "extreme_diagonals node = (int_min, int_max)"

definition check_assign_dimensions ::
  "('w, 'n, 'k, 'c) indexing_ \<Rightarrow> int \<Rightarrow> int \<Rightarrow> 'w \<Rightarrow> error + unit" where
  "check_assign_dimensions node rows' cols' w =
     (case check_size_match ''indexing_.check_assign_dimensions'' ''Rows of '' ''indexing''
             (rows node w) ''rows of '' ''expression'' rows' of
        Inl e \<Rightarrow> Inl e
      | Inr _ \<Rightarrow>
          check_size_match ''indexing_.check_assign_dimensions'' ''Columns of '' ''indexing''
            (cols node w) ''columns of '' ''expression'' cols')"

definition add_write_event :: "('w, 'n, 'k, 'c) indexing_ \<Rightarrow> event \<Rightarrow> 'w \<Rightarrow> 'w" where
  "add_write_event node e w =
     (let w = op_add_read_event (row_index node) e w;
          w = op_add_read_event (col_index node) e w;
          w = op_add_write_event (mat node) e w
      in w)"

definition get_unique_matrix_accesses ::
  "('w, 'n, 'k, 'c) indexing_ \<Rightarrow> int list \<Rightarrow> id_map \<Rightarrow> int \<Rightarrow> 'w \<Rightarrow> int list \<times> id_map \<times> int" where
  "get_unique_matrix_accesses node uids id_map next_id w =
     (let (uids2, id_map2, next_id2) =
             op_get_unique_matrix_accesses (mat node) [] Map.empty 0 w;
          uids = uids @ map (\<lambda>i. int_add i next_id) uids2;
          next_id = int_add next_id next_id2;
          (uids, id_map, next_id) =
             op_get_unique_matrix_accesses (row_index node) uids id_map next_id w
      in op_get_unique_matrix_accesses (col_index node) uids id_map next_id w)"

subsection \<open>Copying and the factory\<close>

text \<open>
  \<^verbatim>\<open>deep_copy\<close> of an \<^verbatim>\<open>indexing_\<close>: a new object, constructed at address \<open>a\<close> from the
  deep copies of the three operands. \<open>copy\<close> is the operands' own \<^verbatim>\<open>deep_copy()\<close>,
  a member function of classes that are not among the sources.
\<close>

definition deep_copy ::
  "int \<Rightarrow> (('w, 'n, 'k, 'c) operand \<Rightarrow> ('w, 'n, 'k, 'c) operand) \<Rightarrow> addr \<Rightarrow>
   ('w, 'n, 'k, 'c) indexing_ \<Rightarrow> 'w \<Rightarrow> error + ('w, 'n, 'k, 'c) indexing_" where
  "deep_copy dynamic copy a node w =
     (let mat_copy = copy (mat node);
          row_index_copy = copy (row_index node);
          col_index_copy = copy (col_index node)
      in indexing_ctor dynamic a mat_copy row_index_copy col_index_copy w)"

text \<open>
  The factory \<^verbatim>\<open>indexing\<close>. \<open>as_operation_cl\<close> (as_operation_cl.hpp, not among the
  sources) turns a kernel expression of type \<open>'e\<close> into an operation.
\<close>

definition indexing ::
  "int \<Rightarrow> ('e \<Rightarrow> ('w, 'n, 'k, 'c) operand) \<Rightarrow> (('w, 'n, 'k, 'c) operand \<Rightarrow> ('w, 'n, 'k, 'c) operand) \<Rightarrow>
   addr \<Rightarrow> 'e \<Rightarrow> 'e \<Rightarrow> 'e \<Rightarrow> 'w \<Rightarrow> error + ('w, 'n, 'k, 'c) indexing_" where
  "indexing dynamic as_operation_cl copy a mat' row_index' col_index' w =
     (let mat_operation = copy (as_operation_cl mat')
      in indexing_ctor dynamic a mat_operation
           (as_operation_cl row_index') (as_operation_cl col_index') w)"

subsection \<open>Observing the calls on the operands\<close>

text \<open>
  Which member functions an \<^verbatim>\<open>indexing_\<close> calls on its operands, in which order and
  with which arguments, is observed by wrapping each operand: the wrapped operand does
  what the operand does and appends the call to a log kept beside the state.
\<close>

datatype operand_tag = Mat | Row_index | Col_index

datatype member_call =
    Get_kernel_parts dedup_map string string bool
  | Get_kernel_parts_lhs dedup_map string string
  | Set_args dedup_map int
  | Set_view int int int int
  | Add_read_event event
  | Add_write_event event

type_synonym call_log = "(operand_tag \<times> member_call) list"

definition observed ::
  "operand_tag \<Rightarrow> ('w, 'n, 'k, 'c) operand \<Rightarrow> (call_log \<times> 'w, 'n, 'k, 'c) operand" where
  "observed t x =
     \<lparr>op_rows = (\<lambda>(l, w). op_rows x w),
      op_cols = (\<lambda>(l, w). op_cols x w),
      op_var_name = (\<lambda>(l, w). op_var_name x w),
      op_get_kernel_parts = (\<lambda>g ng rn cn vh (l, w).
         let (p, g', ng', w') = op_get_kernel_parts x g ng rn cn vh w
         in (p, g', ng', l @ [(t, Get_kernel_parts g rn cn vh)], w')),
      op_get_kernel_parts_lhs = (\<lambda>g ng rn cn (l, w).
         let (p, g', ng', w') = op_get_kernel_parts_lhs x g ng rn cn w
         in (p, g', ng', l @ [(t, Get_kernel_parts_lhs g rn cn)], w')),
      op_set_args = (\<lambda>g k n (l, w).
         let (g', k', n', w') = op_set_args x g k n w
         in (g', k', n', l @ [(t, Set_args g n)], w')),
      op_set_view = (\<lambda>b t' bz tz (l, w).
         (l @ [(t, Set_view b t' bz tz)], op_set_view x b t' bz tz w)),
      op_add_read_event = (\<lambda>e (l, w). (l @ [(t, Add_read_event e)], op_add_read_event x e w)),
      op_add_write_event = (\<lambda>e (l, w). (l @ [(t, Add_write_event e)], op_add_write_event x e w)),
      op_get_unique_matrix_accesses = (\<lambda>uids m n (l, w).
         op_get_unique_matrix_accesses x uids m n w)\<rparr>"

definition observe :: "('w, 'n, 'k, 'c) indexing_ \<Rightarrow> (call_log \<times> 'w, 'n, 'k, 'c) indexing_" where
  "observe node =
     \<lparr>this_ptr = this_ptr node,
      mat = observed Mat (mat node),
      row_index = observed Row_index (row_index node),
      col_index = observed Col_index (col_index node)\<rparr>"

text \<open>The dedup map a call was given, for the calls that take one.\<close>

fun scope :: "member_call \<Rightarrow> dedup_map option" where
  "scope (Get_kernel_parts g rn cn vh) = Some g"
| "scope (Get_kernel_parts_lhs g rn cn) = Some g"
| "scope (Set_args g n) = Some g"
| "scope (Set_view b t bz tz) = None"
| "scope (Add_read_event e) = None"
| "scope (Add_write_event e) = None"

text \<open>The calls each member function of the node makes, from an empty log.\<close>

definition calls_get_kernel_parts ::
  "('w, 'n, 'k, 'c) indexing_ \<Rightarrow> dedup_map \<Rightarrow> 'n \<Rightarrow> string \<Rightarrow> string \<Rightarrow> bool \<Rightarrow>
   indexing_state \<times> 'w \<Rightarrow> call_log" where
  "calls_get_kernel_parts node g ng rn cn vh s =
     (case get_kernel_parts (observe node) g ng rn cn vh (fst s, [], snd s) of
        (p, g', ng', st', l, w') \<Rightarrow> l)"

definition calls_get_kernel_parts_lhs ::
  "('w, 'n, 'k, 'c) indexing_ \<Rightarrow> dedup_map \<Rightarrow> 'n \<Rightarrow> string \<Rightarrow> string \<Rightarrow>
   indexing_state \<times> 'w \<Rightarrow> call_log" where
  "calls_get_kernel_parts_lhs node g ng rn cn s =
     (case get_kernel_parts_lhs (observe node) g ng rn cn (fst s, [], snd s) of
        (p, g', ng', st', l, w') \<Rightarrow> l)"

definition calls_set_args ::
  "('w, 'n, 'k, 'c) indexing_ \<Rightarrow> dedup_map \<Rightarrow> 'k \<Rightarrow> int \<Rightarrow> 'w \<Rightarrow> call_log" where
  "calls_set_args node g k n w =
     (case set_args (observe node) g k n ([], w) of (g', k', n', l, w') \<Rightarrow> l)"

definition calls_set_view ::
  "('w, 'n, 'k, 'c) indexing_ \<Rightarrow> int \<Rightarrow> int \<Rightarrow> int \<Rightarrow> int \<Rightarrow> 'w \<Rightarrow> call_log" where
  "calls_set_view node b t bz tz w = fst (set_view (observe node) b t bz tz ([], w))"

definition calls_add_write_event :: "('w, 'n, 'k, 'c) indexing_ \<Rightarrow> event \<Rightarrow> 'w \<Rightarrow> call_log" where
  "calls_add_write_event node e w = fst (add_write_event (observe node) e ([], w))"

subsection \<open>A leaf operand and the evaluation of a generated kernel\<close>

text \<open>
  Modelled from the spec: the Name Generator (name_generator.hpp is not among the
  sources), which produces unique identifiers for kernel-local variables: a counter
  \<open>i\<close>, and \<^verbatim>\<open>generate()\<close> returns \<^verbatim>\<open>var\<close> followed by the incremented counter.
\<close>

type_synonym name_generator = nat

text \<open>
  Modelled from the spec: the decimal digits of the counter, as \<^verbatim>\<open>std::to_string\<close> gives
  them.
\<close>

fun string_of_nat :: "nat \<Rightarrow> string" where
  "string_of_nat n =
     (if n < 10 then [''0123456789'' ! n]
      else string_of_nat (n div 10) @ [''0123456789'' ! (n mod 10)])"

text \<open>Modelled from the spec: \<^verbatim>\<open>name_generator::generate()\<close>.\<close>

definition generate :: "name_generator \<Rightarrow> string \<times> name_generator" where
  "generate i = (''var'' @ string_of_nat (Suc i), Suc i)"

text \<open>
  Modelled from the spec: a matrix on the device (matrix_cl.hpp is not among the
  sources): its shape and its element at each row and column.
\<close>

record 'a matrix_cl =
  m_rows :: int
  m_cols :: int
  m_at :: "int \<Rightarrow> int \<Rightarrow> 'a"

text \<open>
  Modelled from the spec: a value in a kernel, which is an integer, as the index matrices
  hold and the work-item ids are, or a scalar of the indexed matrix.
\<close>

datatype 'a val = Index int | Elem 'a

text \<open>
  Modelled from the spec: the kernel source a leaf emits, one constructor per line: the
  declaration of the kernel arguments of the matrix named \<open>v\<close>, the read
  \<^verbatim>\<open>v = v_global[r + v_rows * c]\<close> of its element at the row and column held by the
  variables \<open>r\<close> and \<open>c\<close>, and the assignable reference \<^verbatim>\<open>v_global[r + v_rows * c]\<close>.
\<close>

datatype code = Arg_global string | Load_elem string string string | Lhs_elem string string string

text \<open>
  Modelled from the spec: the state of the leaves, which is per leaf its variable name,
  its view (the bottom and the top diagonal) and the events registered with it.
\<close>

record leaf_world =
  lw_var_name :: "addr \<Rightarrow> string"
  lw_view :: "addr \<Rightarrow> int \<times> int"
  lw_read_events :: "addr \<Rightarrow> event list"
  lw_write_events :: "addr \<Rightarrow> event list"

text \<open>
  Modelled from the spec: the state before any code generation, with no name assigned,
  every view unrestricted and no event registered.
\<close>

definition empty_world :: leaf_world where
  "empty_world =
     \<lparr>lw_var_name = (\<lambda>a. []), lw_view = (\<lambda>a. (int_min, int_max)),
      lw_read_events = (\<lambda>a. []), lw_write_events = (\<lambda>a. [])\<rparr>"

text \<open>
  Modelled from the spec: the leaf operation that loads a matrix (\<^verbatim>\<open>load_\<close> of load.hpp,
  which is not among the sources), with identity \<open>a\<close> and matrix \<open>m\<close>, after the operation
  contract of the spec. \<^verbatim>\<open>generate\<close> is idempotent per dedup map: when the identity is
  in the map it returns the empty fragment and keeps the variable name, otherwise it
  marks the identity, takes a fresh name and emits the argument declaration and the
  read at the given row and column index names. \<^verbatim>\<open>generate_lhs\<close> produces the
  assignable reference at the given index names. \<^verbatim>\<open>bind_arguments\<close> binds the matrix
  at the argument cursor and advances it, once per dedup map. \<^verbatim>\<open>set_view\<close> records
  the diagonal range, the events are registered with the leaf, and
  \<^verbatim>\<open>collect_unique_accesses\<close> gives the identity the next id at its first access and
  reports its id at every access.
\<close>

definition load_op ::
  "addr \<Rightarrow> 'a matrix_cl \<Rightarrow> (leaf_world, name_generator, int \<rightharpoonup> 'a matrix_cl, code) operand" where
  "load_op a m =
     \<lparr>op_rows = (\<lambda>w. m_rows m),
      op_cols = (\<lambda>w. m_cols m),
      op_var_name = (\<lambda>w. lw_var_name w a),
      op_get_kernel_parts = (\<lambda>g ng rn cn vh w.
         if g a = None then
           let (v, ng') = generate ng
           in (Kernel_parts [Arg_global v] [Load_elem v rn cn], g(a \<mapsto> []), ng',
               w\<lparr>lw_var_name := (lw_var_name w)(a := v)\<rparr>)
         else (0, g, ng, w)),
      op_get_kernel_parts_lhs = (\<lambda>g ng rn cn w.
         if g a = None then
           let (v, ng') = generate ng
           in (Kernel_parts [Arg_global v] [Lhs_elem v rn cn], g(a \<mapsto> []), ng',
               w\<lparr>lw_var_name := (lw_var_name w)(a := v)\<rparr>)
         else (Kernel_parts [] [Lhs_elem (lw_var_name w a) rn cn], g, ng, w)),
      op_set_args = (\<lambda>g k n w.
         if g a = None then (g(a \<mapsto> []), k(n \<mapsto> m), n + 1, w) else (g, k, n, w)),
      op_set_view = (\<lambda>b t bz tz w. w\<lparr>lw_view := (lw_view w)(a := (b, t))\<rparr>),
      op_add_read_event = (\<lambda>e w.
         w\<lparr>lw_read_events := (lw_read_events w)(a := lw_read_events w a @ [e])\<rparr>),
      op_add_write_event = (\<lambda>e w.
         w\<lparr>lw_write_events := (lw_write_events w)(a := lw_write_events w a @ [e])\<rparr>),
      op_get_unique_matrix_accesses = (\<lambda>uids id_map next_id w.
         case id_map a of
           None \<Rightarrow> (uids @ [next_id], id_map(a \<mapsto> next_id), int_add next_id 1)
         | Some i \<Rightarrow> (uids @ [i], id_map, next_id))\<rparr>"

text \<open>
  Modelled from the spec: one work-item of the compiled kernel. \<open>bound\<close> gives the matrix
  bound to the arguments declared under a name, \<open>env\<close> the values of the kernel's
  variables; a read outside the matrix, or through a variable that holds no integer, has
  no value.
\<close>

fun exec_code :: "(string \<rightharpoonup> 'a val matrix_cl) \<Rightarrow> code \<Rightarrow> (string \<rightharpoonup> 'a val) \<Rightarrow> (string \<rightharpoonup> 'a val) option" where
  "exec_code bound (Arg_global v) env = Some env"
| "exec_code bound (Load_elem v r c) env =
     (case (bound v, env r, env c) of
        (Some m, Some (Index i), Some (Index j)) \<Rightarrow>
          if 0 \<le> i \<and> i < m_rows m \<and> 0 \<le> j \<and> j < m_cols m
          then Some (env(v \<mapsto> m_at m i j)) else None
      | _ \<Rightarrow> None)"
| "exec_code bound (Lhs_elem v r c) env = Some env"

text \<open>Modelled from the spec: a work-item runs the lines of the body in their order.\<close>

fun exec_body :: "(string \<rightharpoonup> 'a val matrix_cl) \<Rightarrow> code list \<Rightarrow> (string \<rightharpoonup> 'a val) \<Rightarrow> (string \<rightharpoonup> 'a val) option" where
  "exec_body bound [] env = Some env"
| "exec_body bound (c # cs) env =
     (case exec_code bound c env of None \<Rightarrow> None | Some env' \<Rightarrow> exec_body bound cs env')"

text \<open>
  Modelled from the spec: the names of the declared kernel arguments, in the order of
  their declaration.
\<close>

fun arg_names :: "code list \<Rightarrow> string list" where
  "arg_names [] = []"
| "arg_names (Arg_global v # cs) = v # arg_names cs"
| "arg_names (c # cs) = arg_names cs"

text \<open>
  Modelled from the spec: the arguments are bound by position, the first declared name to
  the argument bound at \<open>n\<close>, the next to the one at \<open>n + 1\<close>.
\<close>

fun bind_names :: "string list \<Rightarrow> int \<Rightarrow> (int \<rightharpoonup> 'm) \<Rightarrow> (string \<rightharpoonup> 'm)" where
  "bind_names [] n k = Map.empty"
| "bind_names (v # vs) n k = (\<lambda>x. if x = v then k n else bind_names vs (n + 1) k x)"

text \<open>
  Modelled from the spec: the evaluation of an indexing expression (the Kernel
  Assembler, the Kernel Argument Binder and the launch, which are not among the
  sources). The tree is walked once to generate the kernel, with the work-item ids
  \<^verbatim>\<open>i\<close> and \<^verbatim>\<open>j\<close> as row and column index names, and once more to bind the arguments;
  the k-th bound argument is the matrix of the k-th declared one. The work-item at row
  \<open>i\<close> and column \<open>j\<close> of the \<open>rows \<times> cols\<close> result runs the body; the element of the
  result is the value of the expression's variable.
\<close>

definition eval_at ::
  "(leaf_world, name_generator, int \<rightharpoonup> 'a val matrix_cl, code) indexing_ \<Rightarrow> leaf_world \<Rightarrow>
   int \<Rightarrow> int \<Rightarrow> 'a val option" where
  "eval_at node w i j =
     (case get_kernel_parts node Map.empty 0 ''i'' ''j'' False (initial_state, w) of
        (parts, generated, name_gen, st, w1) \<Rightarrow>
          (case set_args node Map.empty Map.empty 0 w1 of
             (generated', kernel', arg_num, w2) \<Rightarrow>
               if 0 \<le> i \<and> i < rows node w \<and> 0 \<le> j \<and> j < cols node w then
                 (case exec_body (bind_names (arg_names (args parts)) 0 kernel') (body parts)
                         [''i'' \<mapsto> Index i, ''j'' \<mapsto> Index j] of
                    None \<Rightarrow> None
                  | Some env \<Rightarrow> env (m_var_name st))
               else None))"

text \<open>
  Modelled from the spec: \<^verbatim>\<open>as_operation_cl\<close> on a matrix (as_operation_cl.hpp is not
  among the sources) wraps the matrix at address \<open>a\<close> in the leaf that loads it.
\<close>

definition as_load :: "addr \<times> 'a matrix_cl \<Rightarrow> (leaf_world, name_generator, int \<rightharpoonup> 'a matrix_cl, code) operand" where
  "as_load e = load_op (fst e) (snd e)"

text \<open>
  Modelled from the spec: the deep copy of a leaf (\<^verbatim>\<open>load_::deep_copy\<close>, not among the
  sources) is a leaf on the same matrix.
\<close>

definition copy_load ::
  "(leaf_world, name_generator, int \<rightharpoonup> 'a matrix_cl, code) operand \<Rightarrow>
   (leaf_world, name_generator, int \<rightharpoonup> 'a matrix_cl, code) operand" where
  "copy_load x = x"

subsection \<open>Generating twice, the contract of the access ids, and the scenario\<close>

text \<open>
  Code generation called a second time, against the map, the name generator and the state
  the first call left.
\<close>

definition second_get_kernel_parts ::
  "('w, 'n, 'k, 'c) indexing_ \<Rightarrow> dedup_map \<Rightarrow> 'n \<Rightarrow> string \<Rightarrow> string \<Rightarrow> bool \<Rightarrow>
   indexing_state \<times> 'w \<Rightarrow> 'c kernel_parts \<times> dedup_map \<times> 'n \<times> indexing_state \<times> 'w" where
  "second_get_kernel_parts node g ng rn cn vh s =
     (case get_kernel_parts node g ng rn cn vh s of
        (p, g', ng', s') \<Rightarrow> get_kernel_parts node g' ng' rn cn vh s')"

definition second_get_kernel_parts_lhs ::
  "('w, 'n, 'k, 'c) indexing_ \<Rightarrow> dedup_map \<Rightarrow> 'n \<Rightarrow> string \<Rightarrow> string \<Rightarrow>
   indexing_state \<times> 'w \<Rightarrow> 'c kernel_parts \<times> dedup_map \<times> 'n \<times> indexing_state \<times> 'w" where
  "second_get_kernel_parts_lhs node g ng rn cn s =
     (case get_kernel_parts_lhs node g ng rn cn s of
        (p, g', ng', s') \<Rightarrow> get_kernel_parts_lhs node g' ng' rn cn s')"

text \<open>
  The number of distinct matrix accesses of an operand: the \<^verbatim>\<open>next_id\<close> it hands back
  when it starts from 0 with an empty id map.
\<close>

definition access_count :: "('w, 'n, 'k, 'c) operand \<Rightarrow> 'w \<Rightarrow> int" where
  "access_count x w =
     (case op_get_unique_matrix_accesses x [] Map.empty 0 w of
        (uids, id_map, next_id) \<Rightarrow> next_id)"

text \<open>
  What \<^verbatim>\<open>get_unique_matrix_accesses\<close> of an operand does with the caller's ids, as long
  as \<^verbatim>\<open>next_id\<close> is not negative and leaves room below the greatest \<^verbatim>\<open>int\<close> for the
  operand's accesses: it appends to \<^verbatim>\<open>uids\<close>, takes its new ids from \<^verbatim>\<open>next_id\<close>
  upwards, no more of them than its access count, and reports each of them, and every id
  it reports or maps is one of the map's or a new one.
\<close>

definition allocates_ids :: "('w, 'n, 'k, 'c) operand \<Rightarrow> 'w \<Rightarrow> bool" where
  "allocates_ids x w \<longleftrightarrow>
     0 \<le> access_count x w \<and> access_count x w \<le> int_max \<and>
     (\<forall>uids id_map next_id.
        0 \<le> next_id \<and> next_id + access_count x w \<le> int_max \<longrightarrow>
        (case op_get_unique_matrix_accesses x uids id_map next_id w of
           (uids', id_map', next_id') \<Rightarrow>
             next_id \<le> next_id' \<and> next_id' \<le> next_id + access_count x w \<and>
             ran id_map' \<subseteq> ran id_map \<union> {next_id..<next_id'} \<and>
             (\<exists>new. uids' = uids @ new \<and> {next_id..<next_id'} \<subseteq> set new \<and>
                    set new \<subseteq> ran id_map \<union> {next_id..<next_id'})))"

text \<open>
  The matrices of the end-to-end scenario: any 3 by 3 matrix, the 2 by 2 row indices
  \<open>[[0, 1], [2, 0]]\<close> and the 2 by 2 column indices \<open>[[0, 0], [1, 2]]\<close>.
\<close>

definition scenario_mat :: "(int \<Rightarrow> int \<Rightarrow> 'a) \<Rightarrow> 'a matrix_cl" where
  "scenario_mat f = \<lparr>m_rows = 3, m_cols = 3, m_at = f\<rparr>"

definition scenario_row_index :: "'a val matrix_cl" where
  "scenario_row_index =
     \<lparr>m_rows = 2, m_cols = 2,
      m_at = (\<lambda>i j. Index (if i = 0 then (if j = 0 then 0 else 1) else (if j = 0 then 2 else 0)))\<rparr>"

definition scenario_col_index :: "'a val matrix_cl" where
  "scenario_col_index =
     \<lparr>m_rows = 2, m_cols = 2,
      m_at = (\<lambda>i j. Index (if i = 0 then (if j = 0 then 0 else 0) else (if j = 0 then 1 else 2)))\<rparr>"

text \<open>
  The indexing of the scenario, constructed at address 0 from the leaves of the matrices
  at the addresses 1, 2 and 3.
\<close>

definition scenario_node ::
  "(int \<Rightarrow> int \<Rightarrow> 'a val) \<Rightarrow> (leaf_world, name_generator, int \<rightharpoonup> 'a val matrix_cl, code) indexing_" where
  "scenario_node f =
     \<lparr>this_ptr = 0, mat = load_op 1 (scenario_mat f),
      row_index = load_op 2 scenario_row_index, col_index = load_op 3 scenario_col_index\<rparr>"

text \<open>
  An index operand of dynamic size on the row axis: a leaf that reports the sentinel
  \<open>- 1\<close> as its number of rows.
\<close>

definition dynamic_rows_index ::
  "addr \<Rightarrow> int \<Rightarrow> (leaf_world, name_generator, int \<rightharpoonup> unit val matrix_cl, code) operand" where
  "dynamic_rows_index a n =
     load_op a \<lparr>m_rows = - 1, m_cols = n, m_at = (\<lambda>i j. Index 0)\<rparr>"

text \<open>
  A state in which every leaf has a restricted view, the main diagonal only, and the
  indexing \<^verbatim>\<open>indexing(A, A, C)\<close> of an integer matrix \<open>A\<close> at address 2 by itself as row
  index and by \<open>C\<close> at address 3 as column index: its matrix operand and its row index
  are leaves on the same matrix.
\<close>

definition diagonal_world :: leaf_world where
  "diagonal_world = empty_world\<lparr>lw_view := (\<lambda>a. (0, 0))\<rparr>"

definition aliased_node ::
  "(leaf_world, name_generator, int \<rightharpoonup> unit val matrix_cl, code) indexing_" where
  "aliased_node =
     \<lparr>this_ptr = 0, mat = load_op 2 scenario_row_index,
      row_index = load_op 2 scenario_row_index, col_index = load_op 3 scenario_col_index\<rparr>"

section \<open>Properties\<close>

subsection \<open>Auxiliary facts\<close>

lemma string_of_nat_small:
  "string_of_nat (Suc 0) = ''1''"
  "string_of_nat (Suc (Suc 0)) = ''2''"
  "string_of_nat (Suc (Suc (Suc 0))) = ''3''"
  by simp_all

lemma indexing_ctor_Inr:
  "indexing_ctor dynamic a m r c w = Inr node \<Longrightarrow>
     node = \<lparr>this_ptr = a, mat = m, row_index = r, col_index = c\<rparr>"
  by (simp add: indexing_ctor_def check_size_match_def split: if_splits)

lemma observed_simps:
  "op_var_name (observed t x) (l, w) = op_var_name x w"
  "op_set_view (observed t x) b t' bz tz (l, w) =
     (l @ [(t, Set_view b t' bz tz)], op_set_view x b t' bz tz w)"
  "op_add_read_event (observed t x) e (l, w) =
     (l @ [(t, Add_read_event e)], op_add_read_event x e w)"
  "op_add_write_event (observed t x) e (l, w) =
     (l @ [(t, Add_write_event e)], op_add_write_event x e w)"
  by (simp_all add: observed_def)

lemma observe_sel:
  "this_ptr (observe node) = this_ptr node"
  "mat (observe node) = observed Mat (mat node)"
  "row_index (observe node) = observed Row_index (row_index node)"
  "col_index (observe node) = observed Col_index (col_index node)"
  by (simp_all add: observe_def)

text \<open>The observed node does what the node does, and logs the calls beside it.\<close>

lemma set_view_observe:
  "set_view (observe node) b t bz tz (l, w) =
     (l @ [(Mat, Set_view int_min int_max int_min int_max)], set_view node b t bz tz w)"
  by (simp add: set_view_def observe_sel observed_simps)

lemma add_write_event_observe:
  "add_write_event (observe node) e (l, w) =
     (l @ [(Row_index, Add_read_event e), (Col_index, Add_read_event e),
           (Mat, Add_write_event e)],
      add_write_event node e w)"
  by (simp add: add_write_event_def observe_sel observed_simps Let_def)

lemma get_kernel_parts_observe:
  "get_kernel_parts (observe node) g ng rn cn vh (st, l, w) =
     (case get_kernel_parts node g ng rn cn vh (st, w) of
        (p, g', ng', st', w') \<Rightarrow>
          (p, g', ng', st', l @ calls_get_kernel_parts node g ng rn cn vh (st, w), w'))"
  by (simp add: calls_get_kernel_parts_def get_kernel_parts_def observe_sel observed_def
      Let_def split_def)

lemma get_kernel_parts_lhs_observe:
  "get_kernel_parts_lhs (observe node) g ng rn cn (st, l, w) =
     (case get_kernel_parts_lhs node g ng rn cn (st, w) of
        (p, g', ng', st', w') \<Rightarrow>
          (p, g', ng', st', l @ calls_get_kernel_parts_lhs node g ng rn cn (st, w), w'))"
  by (simp add: calls_get_kernel_parts_lhs_def get_kernel_parts_lhs_def observe_sel observed_def
      Let_def split_def)

lemma set_args_observe:
  "set_args (observe node) g k n (l, w) =
     (case set_args node g k n w of
        (g', k', n', w') \<Rightarrow> (g', k', n', l @ calls_set_args node g k n w, w'))"
  by (simp add: calls_set_args_def set_args_def observe_sel observed_def Let_def split_def)

text \<open>The calls of a first visit, and of a visit to a node that is in the map already.\<close>

lemma calls_get_kernel_parts_first:
  "g (this_ptr node) = None \<Longrightarrow>
   calls_get_kernel_parts node g ng rn cn vh (st, w) =
     (case op_get_kernel_parts (row_index node) (g(this_ptr node \<mapsto> [])) ng rn cn vh w of
        (p1, g1, ng1, w1) \<Rightarrow>
     (case op_get_kernel_parts (col_index node) g1 ng1 rn cn vh w1 of
        (p2, g2, ng2, w2) \<Rightarrow>
       [(Row_index, Get_kernel_parts (g(this_ptr node \<mapsto> [])) rn cn vh),
        (Col_index, Get_kernel_parts g1 rn cn vh),
        (Mat, Get_kernel_parts Map.empty
                (op_var_name (row_index node) w2) (op_var_name (col_index node) w2) False)]))"
  by (simp add: calls_get_kernel_parts_def get_kernel_parts_def observe_sel observed_def
      Let_def split_def)

lemma calls_get_kernel_parts_again:
  "g (this_ptr node) \<noteq> None \<Longrightarrow> calls_get_kernel_parts node g ng rn cn vh s = []"
  by (auto simp add: calls_get_kernel_parts_def get_kernel_parts_def observe_sel observed_def)

lemma calls_get_kernel_parts_lhs_first:
  "g (this_ptr node) = None \<Longrightarrow>
   calls_get_kernel_parts_lhs node g ng rn cn (st, w) =
     (case op_get_kernel_parts (row_index node) (g(this_ptr node \<mapsto> [])) ng rn cn False w of
        (p1, g1, ng1, w1) \<Rightarrow>
     (case op_get_kernel_parts (col_index node) g1 ng1 rn cn False w1 of
        (p2, g2, ng2, w2) \<Rightarrow>
       [(Row_index, Get_kernel_parts (g(this_ptr node \<mapsto> [])) rn cn False),
        (Col_index, Get_kernel_parts g1 rn cn False),
        (Mat, Get_kernel_parts_lhs Map.empty
                (op_var_name (row_index node) w2) (op_var_name (col_index node) w2))]))"
  by (simp add: calls_get_kernel_parts_lhs_def get_kernel_parts_lhs_def observe_sel observed_def
      Let_def split_def)

lemma calls_get_kernel_parts_lhs_again:
  "g (this_ptr node) \<noteq> None \<Longrightarrow>
   calls_get_kernel_parts_lhs node g ng rn cn (st, w) =
     (case op_get_kernel_parts (row_index node) g ng rn cn False w of
        (p1, g1, ng1, w1) \<Rightarrow>
     (case op_get_kernel_parts (col_index node) g1 ng1 rn cn False w1 of
        (p2, g2, ng2, w2) \<Rightarrow>
       [(Row_index, Get_kernel_parts g rn cn False),
        (Col_index, Get_kernel_parts g1 rn cn False),
        (Mat, Get_kernel_parts_lhs (m_generated st)
                (op_var_name (row_index node) w2) (op_var_name (col_index node) w2))]))"
  by (auto simp add: calls_get_kernel_parts_lhs_def get_kernel_parts_lhs_def observe_sel
      observed_def Let_def split_def)

lemma calls_set_args_first:
  "g (this_ptr node) = None \<Longrightarrow>
   calls_set_args node g k n w =
     (case op_set_args (row_index node) (g(this_ptr node \<mapsto> [])) k n w of
        (g1, k1, n1, w1) \<Rightarrow>
     (case op_set_args (col_index node) g1 k1 n1 w1 of
        (g2, k2, n2, w2) \<Rightarrow>
       [(Row_index, Set_args (g(this_ptr node \<mapsto> [])) n),
        (Col_index, Set_args g1 n1),
        (Mat, Set_args Map.empty n2)]))"
  by (simp add: calls_set_args_def set_args_def observe_sel observed_def Let_def split_def)

lemma calls_set_args_again:
  "g (this_ptr node) \<noteq> None \<Longrightarrow> calls_set_args node g k n w = []"
  by (auto simp add: calls_set_args_def set_args_def observe_sel observed_def)

text \<open>
  An indexing of three leaves, evaluated: the kernel it generates, the arguments it binds
  and the element it computes. The addresses of the node and of the two index leaves
  differ; the matrix leaf may be at any address, since it is generated and bound under a
  map of its own.
\<close>

lemma get_kernel_parts_leaves:
  assumes "a \<noteq> ar" and "a \<noteq> ac" and "ar \<noteq> ac"
  shows "get_kernel_parts \<lparr>this_ptr = a, mat = load_op am M, row_index = load_op ar R,
            col_index = load_op ac C\<rparr> Map.empty 0 ''i'' ''j'' False (initial_state, w) =
    (Kernel_parts [Arg_global ''var1'', Arg_global ''var2'', Arg_global ''var3'']
       [Load_elem ''var1'' ''i'' ''j'', Load_elem ''var2'' ''i'' ''j'',
        Load_elem ''var3'' ''var1'' ''var2''],
     [a \<mapsto> [], ar \<mapsto> [], ac \<mapsto> []], 3,
     \<lparr>m_var_name = ''var3'', m_generated = [am \<mapsto> []]\<rparr>,
     w\<lparr>lw_var_name := (lw_var_name w)(ar := ''var1'', ac := ''var2'', am := ''var3'')\<rparr>)"
  using assms
  by (simp add: get_kernel_parts_def load_op_def generate_def initial_state_def Let_def
      plus_kernel_parts_def string_of_nat_small del: string_of_nat.simps)

lemma get_kernel_parts_lhs_leaves:
  assumes "a \<noteq> ar" and "a \<noteq> ac" and "ar \<noteq> ac"
  shows "get_kernel_parts_lhs \<lparr>this_ptr = a, mat = load_op am M, row_index = load_op ar R,
            col_index = load_op ac C\<rparr> Map.empty 0 ''i'' ''j'' (initial_state, w) =
    (Kernel_parts [Arg_global ''var1'', Arg_global ''var2'', Arg_global ''var3'']
       [Load_elem ''var1'' ''i'' ''j'', Load_elem ''var2'' ''i'' ''j'',
        Lhs_elem ''var3'' ''var1'' ''var2''],
     [a \<mapsto> [], ar \<mapsto> [], ac \<mapsto> []], 3,
     \<lparr>m_var_name = ''var3'', m_generated = [am \<mapsto> []]\<rparr>,
     w\<lparr>lw_var_name := (lw_var_name w)(ar := ''var1'', ac := ''var2'', am := ''var3'')\<rparr>)"
  using assms
  by (simp add: get_kernel_parts_lhs_def load_op_def generate_def initial_state_def Let_def
      plus_kernel_parts_def string_of_nat_small del: string_of_nat.simps)

lemma set_args_leaves:
  assumes "a \<noteq> ar" and "a \<noteq> ac" and "ar \<noteq> ac"
  shows "set_args \<lparr>this_ptr = a, mat = load_op am M, row_index = load_op ar R,
            col_index = load_op ac C\<rparr> Map.empty Map.empty 0 w =
     ([a \<mapsto> [], ar \<mapsto> [], ac \<mapsto> []], [0 \<mapsto> R, 1 \<mapsto> C, 2 \<mapsto> M], 3, w)"
  using assms by (simp add: set_args_def load_op_def Let_def)

text \<open>
  The kernel declares its arguments in the order in which \<^verbatim>\<open>set_args\<close> binds them, and
  the element at row \<open>i\<close> and column \<open>j\<close> of the result is the element of the matrix at
  the row and the column that the index matrices hold at \<open>i\<close> and \<open>j\<close>.
\<close>

lemma eval_at_leaves:
  assumes "a \<noteq> ar" and "a \<noteq> ac" and "ar \<noteq> ac"
    and "m_rows R = m_rows C" and "m_cols R = m_cols C"
    and "0 \<le> i" and "i < m_rows R" and "0 \<le> j" and "j < m_cols R"
    and "m_at R i j = Index p" and "m_at C i j = Index q"
    and "0 \<le> p" and "p < m_rows M" and "0 \<le> q" and "q < m_cols M"
  shows "eval_at \<lparr>this_ptr = a, mat = load_op am M, row_index = load_op ar R,
            col_index = load_op ac C\<rparr> w i j = Some (m_at M p q)"
  unfolding eval_at_def get_kernel_parts_leaves [OF assms(1-3)] set_args_leaves [OF assms(1-3)]
  using assms(4-)
  by (simp add: rows_def cols_def load_op_def)

text \<open>The scenario: the generated kernel and the shape.\<close>

lemma get_kernel_parts_scenario:
  "get_kernel_parts (scenario_node f) Map.empty 0 ''i'' ''j'' False (initial_state, w) =
    (Kernel_parts [Arg_global ''var1'', Arg_global ''var2'', Arg_global ''var3'']
       [Load_elem ''var1'' ''i'' ''j'', Load_elem ''var2'' ''i'' ''j'',
        Load_elem ''var3'' ''var1'' ''var2''],
     [0 \<mapsto> [], 2 \<mapsto> [], 3 \<mapsto> []], 3,
     \<lparr>m_var_name = ''var3'', m_generated = [1 \<mapsto> []]\<rparr>,
     w\<lparr>lw_var_name := (lw_var_name w)(2 := ''var1'', 3 := ''var2'', 1 := ''var3'')\<rparr>)"
  unfolding scenario_node_def by (rule get_kernel_parts_leaves) simp_all

lemma get_kernel_parts_lhs_scenario:
  "get_kernel_parts_lhs (scenario_node f) Map.empty 0 ''i'' ''j'' (initial_state, w) =
    (Kernel_parts [Arg_global ''var1'', Arg_global ''var2'', Arg_global ''var3'']
       [Load_elem ''var1'' ''i'' ''j'', Load_elem ''var2'' ''i'' ''j'',
        Lhs_elem ''var3'' ''var1'' ''var2''],
     [0 \<mapsto> [], 2 \<mapsto> [], 3 \<mapsto> []], 3,
     \<lparr>m_var_name = ''var3'', m_generated = [1 \<mapsto> []]\<rparr>,
     w\<lparr>lw_var_name := (lw_var_name w)(2 := ''var1'', 3 := ''var2'', 1 := ''var3'')\<rparr>)"
  unfolding scenario_node_def by (rule get_kernel_parts_lhs_leaves) simp_all

lemma shape_scenario:
  "rows (scenario_node f) w = 2"
  "cols (scenario_node f) w = 2"
  by (simp_all add: rows_def cols_def scenario_node_def load_op_def scenario_row_index_def
      scenario_col_index_def)

lemma eval_at_scenario:
  assumes "0 \<le> i" and "i < 2" and "0 \<le> j" and "j < 2"
    and "m_at scenario_row_index i j = Index p" and "m_at scenario_col_index i j = Index q"
    and "0 \<le> p" and "p < 3" and "0 \<le> q" and "q < 3"
  shows "eval_at (scenario_node f) w i j = Some (f p q)"
proof -
  have "eval_at (scenario_node f) w i j = Some (m_at (scenario_mat f) p q)"
    unfolding scenario_node_def
    using assms
    by (intro eval_at_leaves)
      (simp_all add: scenario_row_index_def scenario_col_index_def scenario_mat_def)
  then show ?thesis
    by (simp add: scenario_mat_def)
qed

text \<open>Where the sum is an \<^verbatim>\<open>int\<close>, the addition of two \<^verbatim>\<open>int\<close> is the sum.\<close>

lemma int_add_in_range:
  assumes "int_min \<le> a + b" and "a + b \<le> int_max"
  shows "int_add a b = a + b"
proof -
  have "0 \<le> a + b - int_min" and "a + b - int_min < 2 ^ 32"
    using assms by (simp_all add: int_min_def int_max_def)
  then have "(a + b - int_min) mod 2 ^ 32 = a + b - int_min"
    by (rule mod_pos_pos_trivial)
  then show ?thesis
    by (simp add: int_add_def)
qed

lemma int_add_nonneg:
  assumes "0 \<le> a" and "0 \<le> b" and "a + b \<le> int_max"
  shows "int_add a b = a + b"
  using assms by (intro int_add_in_range) (simp_all add: int_min_def)

text \<open>At the greatest \<^verbatim>\<open>int\<close> the addition wraps around to the least.\<close>

lemma int_add_wraps: "int_add int_max 1 = int_min"
  by (simp add: int_add_def int_min_def int_max_def)

text \<open>The leaf has one access and keeps the contract of the access ids.\<close>

lemma access_count_load_op: "access_count (load_op a m) w = 1"
  by (simp add: access_count_def load_op_def int_add_def int_min_def)

lemma load_op_allocates_ids: "allocates_ids (load_op a m) w"
proof -
  have "case op_get_unique_matrix_accesses (load_op a m) uids id_map next_id w of
           (uids', id_map', next_id') \<Rightarrow>
             next_id \<le> next_id' \<and> next_id' \<le> next_id + 1 \<and>
             ran id_map' \<subseteq> ran id_map \<union> {next_id..<next_id'} \<and>
             (\<exists>new. uids' = uids @ new \<and> {next_id..<next_id'} \<subseteq> set new \<and>
                    set new \<subseteq> ran id_map \<union> {next_id..<next_id'})"
    if "0 \<le> next_id" and "next_id + 1 \<le> int_max" for uids id_map next_id
  proof -
    have add: "int_add next_id 1 = next_id + 1"
      using that by (intro int_add_nonneg) simp_all
    show ?thesis
      by (auto simp add: load_op_def add ran_def split: option.splits)
  qed
  then show ?thesis
    unfolding allocates_ids_def access_count_load_op
    by (simp add: int_max_def)
qed

lemma allocates_idsD:
  assumes "allocates_ids x w"
    and "0 \<le> next_id" and "next_id + access_count x w \<le> int_max"
    and "op_get_unique_matrix_accesses x uids id_map next_id w = (uids', id_map', next_id')"
  shows "next_id \<le> next_id'"
    and "next_id' \<le> next_id + access_count x w"
    and "ran id_map' \<subseteq> ran id_map \<union> {next_id..<next_id'}"
    and "\<exists>new. uids' = uids @ new \<and> {next_id..<next_id'} \<subseteq> set new \<and>
           set new \<subseteq> ran id_map \<union> {next_id..<next_id'}"
proof -
  from assms(1)
  have "0 \<le> next_id \<and> next_id + access_count x w \<le> int_max \<longrightarrow>
        (case op_get_unique_matrix_accesses x uids id_map next_id w of
           (uids', id_map', next_id') \<Rightarrow>
             next_id \<le> next_id' \<and> next_id' \<le> next_id + access_count x w \<and>
             ran id_map' \<subseteq> ran id_map \<union> {next_id..<next_id'} \<and>
             (\<exists>new. uids' = uids @ new \<and> {next_id..<next_id'} \<subseteq> set new \<and>
                    set new \<subseteq> ran id_map \<union> {next_id..<next_id'}))"
    unfolding allocates_ids_def
    by (elim conjE allE[of _ uids] allE[of _ id_map] allE[of _ next_id])
  with assms(2,3)
  have "case op_get_unique_matrix_accesses x uids id_map next_id w of
           (uids', id_map', next_id') \<Rightarrow>
             next_id \<le> next_id' \<and> next_id' \<le> next_id + access_count x w \<and>
             ran id_map' \<subseteq> ran id_map \<union> {next_id..<next_id'} \<and>
             (\<exists>new. uids' = uids @ new \<and> {next_id..<next_id'} \<subseteq> set new \<and>
                    set new \<subseteq> ran id_map \<union> {next_id..<next_id'})"
    by simp
  then show "next_id \<le> next_id'"
    and "next_id' \<le> next_id + access_count x w"
    and "ran id_map' \<subseteq> ran id_map \<union> {next_id..<next_id'}"
    and "\<exists>new. uids' = uids @ new \<and> {next_id..<next_id'} \<subseteq> set new \<and>
           set new \<subseteq> ran id_map \<union> {next_id..<next_id'}"
    by (simp_all add: assms(4))
qed

lemma allocates_ids_count:
  assumes "allocates_ids x w"
  shows "0 \<le> access_count x w" and "access_count x w \<le> int_max"
  using assms by (simp_all add: allocates_ids_def)

lemma shift_range: "(\<lambda>i. i + (n::int)) ` {0..<k} = {n..<n + k}"
proof
  show "(\<lambda>i. i + n) ` {0..<k} \<subseteq> {n..<n + k}"
    by auto
  show "{n..<n + k} \<subseteq> (\<lambda>i. i + n) ` {0..<k}"
  proof
    fix x
    assume "x \<in> {n..<n + k}"
    then have "x = (x - n) + n" and "x - n \<in> {0..<k}"
      by auto
    then show "x \<in> (\<lambda>i. i + n) ` {0..<k}"
      by (rule image_eqI)
  qed
qed

text \<open>Without room below the greatest \<^verbatim>\<open>int\<close>, the ids wrap around.\<close>

lemma get_unique_matrix_accesses_wraps:
  "get_unique_matrix_accesses (scenario_node (\<lambda>i j. Elem ())) [] Map.empty int_max empty_world =
     ([int_max, int_min, int_min + 1],
      [2 \<mapsto> int_min, 3 \<mapsto> int_min + 1], int_min + 2)"
  by (simp add: get_unique_matrix_accesses_def scenario_node_def load_op_def int_add_def
      int_min_def int_max_def)

subsection \<open>The end-to-end scenario\<close>

text \<open>
  Claim C1. A 3 by 3 matrix \<open>mat\<close> (with elements \<open>f i j\<close>) is indexed with the row
  indices \<open>[[0, 1], [2, 0]]\<close> and the column indices \<open>[[0, 0], [1, 2]]\<close>. The
  factory builds the indexing node; its result has 2 rows and 2 columns, and the
  evaluation of the generated kernel gives at each position the element of \<open>mat\<close> at the
  row and column the two index matrices hold there: \<open>result[0,0] = mat[0,0]\<close>,
  \<open>result[0,1] = mat[1,0]\<close>, \<open>result[1,0] = mat[2,1]\<close> and \<open>result[1,1] = mat[0,2]\<close>.
\<close>

theorem scenario_gathers_indexed_elements:
  "indexing (- 1) as_load copy_load 0
      (1, scenario_mat f) (2, scenario_row_index) (3, scenario_col_index) w
     = Inr (scenario_node f)
   \<and> rows (scenario_node f) w = 2 \<and> cols (scenario_node f) w = 2
   \<and> eval_at (scenario_node f) w 0 0 = Some (f 0 0)
   \<and> eval_at (scenario_node f) w 0 1 = Some (f 1 0)
   \<and> eval_at (scenario_node f) w 1 0 = Some (f 2 1)
   \<and> eval_at (scenario_node f) w 1 1 = Some (f 0 2)"
proof (intro conjI)
  show "indexing (- 1) as_load copy_load 0
      (1, scenario_mat f) (2, scenario_row_index) (3, scenario_col_index) w
     = Inr (scenario_node f)"
    by (simp add: indexing_def indexing_ctor_def as_load_def copy_load_def scenario_node_def
        check_size_match_def load_op_def scenario_row_index_def scenario_col_index_def)
  show "rows (scenario_node f) w = 2" and "cols (scenario_node f) w = 2"
    by (simp_all add: shape_scenario)
  show "eval_at (scenario_node f) w 0 0 = Some (f 0 0)"
    by (rule eval_at_scenario) (simp_all add: scenario_row_index_def scenario_col_index_def)
  show "eval_at (scenario_node f) w 0 1 = Some (f 1 0)"
    by (rule eval_at_scenario) (simp_all add: scenario_row_index_def scenario_col_index_def)
  show "eval_at (scenario_node f) w 1 0 = Some (f 2 1)"
    by (rule eval_at_scenario) (simp_all add: scenario_row_index_def scenario_col_index_def)
  show "eval_at (scenario_node f) w 1 1 = Some (f 0 2)"
    by (rule eval_at_scenario) (simp_all add: scenario_row_index_def scenario_col_index_def)
qed

subsection \<open>The shape check of the constructor\<close>

text \<open>
  Claim C2. When the two index operands both report a concrete number of rows and the
  numbers differ, the constructor fails with the invalid-dimension error of the rows;
  when they both report a concrete number of columns and the numbers differ, it fails;
  where one of the two reports the dynamic sentinel on an axis, the error of that axis
  is never raised, and a mismatch of the columns is then reported as such; and when
  neither axis has a concrete mismatch the node is constructed. The error is the result
  of the constructor itself: code generation and argument binding return no error.
\<close>

theorem ctor_checks_concrete_shapes:
  "(op_rows c w \<noteq> dynamic \<and> op_rows r w \<noteq> dynamic \<and> op_rows c w \<noteq> op_rows r w \<longrightarrow>
      indexing_ctor dynamic a m r c w =
        Inl (Invalid_argument ''indexing'' ''Rows of '' ''col_index'' (op_rows c w)
               ''rows of '' ''row_index'' (op_rows r w)))
   \<and> (op_cols c w \<noteq> dynamic \<and> op_cols r w \<noteq> dynamic \<and> op_cols c w \<noteq> op_cols r w \<longrightarrow>
      (\<exists>e. indexing_ctor dynamic a m r c w = Inl e))
   \<and> (op_rows c w = dynamic \<or> op_rows r w = dynamic \<longrightarrow>
      indexing_ctor dynamic a m r c w \<noteq>
        Inl (Invalid_argument ''indexing'' ''Rows of '' ''col_index'' (op_rows c w)
               ''rows of '' ''row_index'' (op_rows r w)))
   \<and> (op_cols c w = dynamic \<or> op_cols r w = dynamic \<longrightarrow>
      indexing_ctor dynamic a m r c w \<noteq>
        Inl (Invalid_argument ''indexing'' ''Columns of '' ''col_index'' (op_cols c w)
               ''columns of '' ''row_index'' (op_cols r w)))
   \<and> ((op_rows c w = dynamic \<or> op_rows r w = dynamic) \<and>
       op_cols c w \<noteq> dynamic \<and> op_cols r w \<noteq> dynamic \<and> op_cols c w \<noteq> op_cols r w \<longrightarrow>
      indexing_ctor dynamic a m r c w =
        Inl (Invalid_argument ''indexing'' ''Columns of '' ''col_index'' (op_cols c w)
               ''columns of '' ''row_index'' (op_cols r w)))
   \<and> ((op_rows c w = dynamic \<or> op_rows r w = dynamic \<or> op_rows c w = op_rows r w) \<and>
       (op_cols c w = dynamic \<or> op_cols r w = dynamic \<or> op_cols c w = op_cols r w) \<longrightarrow>
      indexing_ctor dynamic a m r c w =
        Inr \<lparr>this_ptr = a, mat = m, row_index = r, col_index = c\<rparr>)"
  by (auto simp add: indexing_ctor_def check_size_match_def)

theorem ctor_checks_concrete_shapes_witness:
  "indexing_ctor (- 1) 0 (load_op 1 (scenario_mat (\<lambda>i j. Elem ())))
      (load_op 2 scenario_row_index) (load_op 3 (scenario_mat (\<lambda>i j. Index 0))) empty_world =
     Inl (Invalid_argument ''indexing'' ''Rows of '' ''col_index'' 3 ''rows of '' ''row_index'' 2)
   \<and> indexing_ctor (- 1) 0 (load_op 1 (scenario_mat (\<lambda>i j. Elem ())))
      (dynamic_rows_index 2 2) (load_op 3 (scenario_mat (\<lambda>i j. Index 0))) empty_world =
     Inl (Invalid_argument ''indexing'' ''Columns of '' ''col_index'' 3
            ''columns of '' ''row_index'' 2)
   \<and> indexing_ctor (- 1) 0 (load_op 1 (scenario_mat (\<lambda>i j. Elem ())))
      (dynamic_rows_index 2 3) (load_op 3 (scenario_mat (\<lambda>i j. Index 0))) empty_world =
     Inr \<lparr>this_ptr = 0, mat = load_op 1 (scenario_mat (\<lambda>i j. Elem ())),
          row_index = dynamic_rows_index 2 3,
          col_index = load_op 3 (scenario_mat (\<lambda>i j. Index 0))\<rparr>"
  using
    ctor_checks_concrete_shapes [of "load_op 3 (scenario_mat (\<lambda>i j. Index 0))" empty_world
      "- 1" "load_op 2 scenario_row_index" 0 "load_op 1 (scenario_mat (\<lambda>i j. Elem ()))"]
    ctor_checks_concrete_shapes [of "load_op 3 (scenario_mat (\<lambda>i j. Index 0))" empty_world
      "- 1" "dynamic_rows_index 2 2" 0 "load_op 1 (scenario_mat (\<lambda>i j. Elem ()))"]
    ctor_checks_concrete_shapes [of "load_op 3 (scenario_mat (\<lambda>i j. Index 0))" empty_world
      "- 1" "dynamic_rows_index 2 3" 0 "load_op 1 (scenario_mat (\<lambda>i j. Elem ()))"]
  by (simp add: load_op_def dynamic_rows_index_def scenario_mat_def scenario_row_index_def)

subsection \<open>The order of the operand visits\<close>

text \<open>
  Claim C3 as stated, that for every node the operands are visited in the order row
  index, column index, matrix and that the sequence of visits is the same in code
  generation and in argument binding, fails for a node that is in the dedup map already.
  For the scenario's node and a map that holds it, the write path
  \<^verbatim>\<open>get_kernel_parts_lhs\<close> visits the three operands, while \<^verbatim>\<open>set_args\<close> and the read
  path \<^verbatim>\<open>get_kernel_parts\<close> visit none.
\<close>

theorem marked_node_visits_differ:
  "[0 \<mapsto> []] (this_ptr (scenario_node (\<lambda>i j. Elem ()))) \<noteq> None
   \<and> map fst (calls_get_kernel_parts_lhs (scenario_node (\<lambda>i j. Elem ())) [0 \<mapsto> []] 0
         ''i'' ''j'' (initial_state, empty_world)) = [Row_index, Col_index, Mat]
   \<and> map fst (calls_set_args (scenario_node (\<lambda>i j. Elem ())) [0 \<mapsto> []] Map.empty 0
         empty_world) = []
   \<and> map fst (calls_get_kernel_parts (scenario_node (\<lambda>i j. Elem ())) [0 \<mapsto> []] 0
         ''i'' ''j'' False (initial_state, empty_world)) = []
   \<and> map fst (calls_get_kernel_parts_lhs (scenario_node (\<lambda>i j. Elem ())) [0 \<mapsto> []] 0
         ''i'' ''j'' (initial_state, empty_world))
       \<noteq> map fst (calls_set_args (scenario_node (\<lambda>i j. Elem ())) [0 \<mapsto> []] Map.empty 0
             empty_world)"
proof -
  let ?n = "scenario_node (\<lambda>i j. Elem ())"
  have marked: "[0 \<mapsto> []] (this_ptr ?n) \<noteq> None"
    by (simp add: scenario_node_def)
  have lhs: "map fst (calls_get_kernel_parts_lhs ?n [0 \<mapsto> []] 0 ''i'' ''j''
      (initial_state, empty_world)) = [Row_index, Col_index, Mat]"
    by (simp add: calls_get_kernel_parts_lhs_again [of "[0 \<mapsto> []]" ?n, OF marked] split_def)
  have bind: "map fst (calls_set_args ?n [0 \<mapsto> []] Map.empty 0 empty_world) = []"
    by (simp add: calls_set_args_again [of "[0 \<mapsto> []]" ?n, OF marked])
  have gen: "map fst (calls_get_kernel_parts ?n [0 \<mapsto> []] 0 ''i'' ''j'' False
      (initial_state, empty_world)) = []"
    by (simp add: calls_get_kernel_parts_again [of "[0 \<mapsto> []]" ?n, OF marked])
  from marked lhs bind gen show ?thesis
    by simp
qed

text \<open>
  Claim C3, amended. A node that is not yet in the dedup map it is given visits its
  operands in the order row index, column index, matrix, in the read path of code
  generation, in the write path and in argument binding alike. In each of the three the
  row index is visited with the caller's map (in which the node has just been marked),
  the column index with that map as the row index left it, and the matrix operand with
  an empty map of its own: the cleared member \<^verbatim>\<open>generated_\<close> in code generation, the
  local \<^verbatim>\<open>generated2\<close> in \<^verbatim>\<open>set_args\<close>. A node that is in the map already is skipped
  by the read path and by \<^verbatim>\<open>set_args\<close>, which visit no operand, while the write path
  visits the row index, the column index and the matrix operand again, the index operands
  with the caller's map and the matrix operand with the member \<^verbatim>\<open>generated_\<close> as it
  stands.
\<close>

theorem operand_visits_of_new_and_marked_node:
  "(g (this_ptr node) = None \<longrightarrow>
      map fst (calls_get_kernel_parts node g ng rn cn vh (st, w)) = [Row_index, Col_index, Mat]
      \<and> map fst (calls_get_kernel_parts_lhs node g ng rn cn (st, w))
          = [Row_index, Col_index, Mat]
      \<and> map (scope \<circ> snd) (calls_get_kernel_parts node g ng rn cn vh (st, w)) =
          [Some (g(this_ptr node \<mapsto> [])),
           Some (fst (snd (op_get_kernel_parts (row_index node) (g(this_ptr node \<mapsto> []))
                             ng rn cn vh w))),
           Some Map.empty]
      \<and> map (scope \<circ> snd) (calls_get_kernel_parts_lhs node g ng rn cn (st, w)) =
          [Some (g(this_ptr node \<mapsto> [])),
           Some (fst (snd (op_get_kernel_parts (row_index node) (g(this_ptr node \<mapsto> []))
                             ng rn cn False w))),
           Some Map.empty])
   \<and> (g' (this_ptr node) = None \<longrightarrow>
      map fst (calls_set_args node g' k n w) = [Row_index, Col_index, Mat]
      \<and> map (scope \<circ> snd) (calls_set_args node g' k n w) =
          [Some (g'(this_ptr node \<mapsto> [])),
           Some (fst (op_set_args (row_index node) (g'(this_ptr node \<mapsto> [])) k n w)),
           Some Map.empty])
   \<and> (g (this_ptr node) \<noteq> None \<longrightarrow>
      calls_get_kernel_parts node g ng rn cn vh (st, w) = []
      \<and> map fst (calls_get_kernel_parts_lhs node g ng rn cn (st, w))
          = [Row_index, Col_index, Mat]
      \<and> map (scope \<circ> snd) (calls_get_kernel_parts_lhs node g ng rn cn (st, w)) =
          [Some g,
           Some (fst (snd (op_get_kernel_parts (row_index node) g ng rn cn False w))),
           Some (m_generated st)])
   \<and> (g' (this_ptr node) \<noteq> None \<longrightarrow> calls_set_args node g' k n w = [])"
proof (intro conjI impI)
  assume new: "g (this_ptr node) = None"
  show "map fst (calls_get_kernel_parts node g ng rn cn vh (st, w)) = [Row_index, Col_index, Mat]"
    and "map (scope \<circ> snd) (calls_get_kernel_parts node g ng rn cn vh (st, w)) =
          [Some (g(this_ptr node \<mapsto> [])),
           Some (fst (snd (op_get_kernel_parts (row_index node) (g(this_ptr node \<mapsto> []))
                             ng rn cn vh w))),
           Some Map.empty]"
    using new by (simp_all add: calls_get_kernel_parts_first split_def)
  show "map fst (calls_get_kernel_parts_lhs node g ng rn cn (st, w))
          = [Row_index, Col_index, Mat]"
    and "map (scope \<circ> snd) (calls_get_kernel_parts_lhs node g ng rn cn (st, w)) =
          [Some (g(this_ptr node \<mapsto> [])),
           Some (fst (snd (op_get_kernel_parts (row_index node) (g(this_ptr node \<mapsto> []))
                             ng rn cn False w))),
           Some Map.empty]"
    using new by (simp_all add: calls_get_kernel_parts_lhs_first split_def)
next
  assume new: "g' (this_ptr node) = None"
  show "map fst (calls_set_args node g' k n w) = [Row_index, Col_index, Mat]"
    and "map (scope \<circ> snd) (calls_set_args node g' k n w) =
          [Some (g'(this_ptr node \<mapsto> [])),
           Some (fst (op_set_args (row_index node) (g'(this_ptr node \<mapsto> [])) k n w)),
           Some Map.empty]"
    using new by (simp_all add: calls_set_args_first split_def)
next
  assume marked: "g (this_ptr node) \<noteq> None"
  show "calls_get_kernel_parts node g ng rn cn vh (st, w) = []"
    using marked by (rule calls_get_kernel_parts_again)
  show "map fst (calls_get_kernel_parts_lhs node g ng rn cn (st, w))
          = [Row_index, Col_index, Mat]"
    and "map (scope \<circ> snd) (calls_get_kernel_parts_lhs node g ng rn cn (st, w)) =
          [Some g,
           Some (fst (snd (op_get_kernel_parts (row_index node) g ng rn cn False w))),
           Some (m_generated st)]"
    using marked by (simp_all add: calls_get_kernel_parts_lhs_again split_def)
next
  assume marked: "g' (this_ptr node) \<noteq> None"
  show "calls_set_args node g' k n w = []"
    using marked by (rule calls_set_args_again)
qed

theorem operand_visits_of_new_and_marked_node_witness:
  "Map.empty (this_ptr (scenario_node (\<lambda>i j. Elem ()))) = (None :: string option)
   \<and> map fst (calls_get_kernel_parts (scenario_node (\<lambda>i j. Elem ())) Map.empty 0 ''i'' ''j''
         False (initial_state, empty_world)) = [Row_index, Col_index, Mat]
   \<and> map fst (calls_get_kernel_parts_lhs (scenario_node (\<lambda>i j. Elem ())) Map.empty 0 ''i'' ''j''
         (initial_state, empty_world)) = [Row_index, Col_index, Mat]
   \<and> map fst (calls_set_args (scenario_node (\<lambda>i j. Elem ())) Map.empty Map.empty 0 empty_world)
       = [Row_index, Col_index, Mat]
   \<and> map (scope \<circ> snd)
       (calls_set_args (scenario_node (\<lambda>i j. Elem ())) Map.empty Map.empty 0 empty_world)
       = [Some [0 \<mapsto> []], Some [0 \<mapsto> [], 2 \<mapsto> []], Some Map.empty]
   \<and> [0 \<mapsto> []] (this_ptr (scenario_node (\<lambda>i j. Elem ()))) \<noteq> None
   \<and> calls_get_kernel_parts (scenario_node (\<lambda>i j. Elem ())) [0 \<mapsto> []] 0 ''i'' ''j''
         False (initial_state\<lparr>m_generated := [1 \<mapsto> []]\<rparr>, empty_world) = []
   \<and> calls_set_args (scenario_node (\<lambda>i j. Elem ())) [0 \<mapsto> []] Map.empty 0 empty_world = []
   \<and> map (scope \<circ> snd)
       (calls_get_kernel_parts_lhs (scenario_node (\<lambda>i j. Elem ())) [0 \<mapsto> []] 0 ''i'' ''j''
          (initial_state\<lparr>m_generated := [1 \<mapsto> []]\<rparr>, empty_world))
       = [Some [0 \<mapsto> []], Some [0 \<mapsto> [], 2 \<mapsto> []], Some [1 \<mapsto> []]]"
proof -
  let ?n = "scenario_node (\<lambda>i j. Elem ())"
  have new: "Map.empty (this_ptr ?n) = (None :: string option)"
    by simp
  have marked: "[0 \<mapsto> []] (this_ptr ?n) \<noteq> None"
    by (simp add: scenario_node_def)
  note first = operand_visits_of_new_and_marked_node [of Map.empty ?n 0 "''i''" "''j''" False
      initial_state empty_world Map.empty Map.empty 0]
  note again = operand_visits_of_new_and_marked_node [of "[0 \<mapsto> []]" ?n 0 "''i''" "''j''" False
      "initial_state\<lparr>m_generated := [1 \<mapsto> []]\<rparr>" empty_world "[0 \<mapsto> []]" Map.empty 0]
  from first new
  have a: "map fst (calls_get_kernel_parts ?n Map.empty 0 ''i'' ''j''
         False (initial_state, empty_world)) = [Row_index, Col_index, Mat]"
    and b: "map fst (calls_get_kernel_parts_lhs ?n Map.empty 0 ''i'' ''j''
         (initial_state, empty_world)) = [Row_index, Col_index, Mat]"
    and c: "map fst (calls_set_args ?n Map.empty Map.empty 0 empty_world)
       = [Row_index, Col_index, Mat]"
    by blast+
  from first new
  have d: "map (scope \<circ> snd) (calls_set_args ?n Map.empty Map.empty 0 empty_world)
       = [Some [0 \<mapsto> []], Some [0 \<mapsto> [], 2 \<mapsto> []], Some Map.empty]"
    by (simp add: scenario_node_def load_op_def)
  from again marked
  have e: "calls_get_kernel_parts ?n [0 \<mapsto> []] 0 ''i'' ''j''
         False (initial_state\<lparr>m_generated := [1 \<mapsto> []]\<rparr>, empty_world) = []"
    and f: "calls_set_args ?n [0 \<mapsto> []] Map.empty 0 empty_world = []"
    by blast+
  from again marked
  have h: "map (scope \<circ> snd)
       (calls_get_kernel_parts_lhs ?n [0 \<mapsto> []] 0 ''i'' ''j''
          (initial_state\<lparr>m_generated := [1 \<mapsto> []]\<rparr>, empty_world))
       = [Some [0 \<mapsto> []], Some [0 \<mapsto> [], 2 \<mapsto> []], Some [1 \<mapsto> []]]"
    by (simp add: scenario_node_def load_op_def generate_def initial_state_def Let_def)
  from new marked a b c d e f h show ?thesis
    by blast
qed

subsection \<open>Generating a second time\<close>

text \<open>
  Claim C4 as stated, that a second call of code generation against a map that contains
  the node returns the empty fragment on the write path too, fails. The write path is
  generated twice for the scenario: the first call marks the node in the map, and the
  second call against that map returns the matrix operand's assignable reference, which
  is not the empty fragment. Nor is the fragment empty for a map that contains the node
  and not yet its index operands.
\<close>

theorem second_lhs_generation_not_empty:
  "fst (snd (get_kernel_parts_lhs (scenario_node (\<lambda>i j. Elem ())) Map.empty 0 ''i'' ''j''
              (initial_state, empty_world)))
      (this_ptr (scenario_node (\<lambda>i j. Elem ()))) \<noteq> None
   \<and> fst (second_get_kernel_parts_lhs (scenario_node (\<lambda>i j. Elem ())) Map.empty 0 ''i'' ''j''
            (initial_state, empty_world))
       = Kernel_parts [] [Lhs_elem ''var3'' ''var1'' ''var2'']
   \<and> fst (second_get_kernel_parts_lhs (scenario_node (\<lambda>i j. Elem ())) Map.empty 0 ''i'' ''j''
            (initial_state, empty_world))
       \<noteq> 0
   \<and> [0 \<mapsto> []] (this_ptr (scenario_node (\<lambda>i j. Elem ()))) \<noteq> None
   \<and> fst (get_kernel_parts_lhs (scenario_node (\<lambda>i j. Elem ())) [0 \<mapsto> []] 0 ''i'' ''j''
            (initial_state, empty_world))
       \<noteq> 0"
  apply (simp add: second_get_kernel_parts_lhs_def get_kernel_parts_lhs_scenario)
  apply (simp add: get_kernel_parts_lhs_def scenario_node_def load_op_def Let_def generate_def
      plus_kernel_parts_def zero_kernel_parts_def)
  done

text \<open>
  Claim C4, amended. For a dedup map that contains the node already, the read path
  \<^verbatim>\<open>get_kernel_parts\<close> returns the empty fragment and changes nothing: not the map,
  not the name generator, not \<^verbatim>\<open>var_name_\<close>, not the operands. The write path
  \<^verbatim>\<open>get_kernel_parts_lhs\<close> has only the marking under its test: it visits the three
  operands again, the matrix operand with the member \<^verbatim>\<open>generated_\<close> as it stands,
  returns the sum of their fragments and sets \<^verbatim>\<open>var_name_\<close> to the matrix operand's name
  again.
\<close>

theorem generation_again_on_marked_node:
  assumes "g (this_ptr node) \<noteq> None"
  shows "get_kernel_parts node g ng rn cn vh (st, w) = (0, g, ng, st, w)
    \<and> get_kernel_parts_lhs node g ng rn cn (st, w) =
       (case op_get_kernel_parts (row_index node) g ng rn cn False w of
          (p1, g1, ng1, w1) \<Rightarrow>
        case op_get_kernel_parts (col_index node) g1 ng1 rn cn False w1 of
          (p2, g2, ng2, w2) \<Rightarrow>
        case op_get_kernel_parts_lhs (mat node) (m_generated st) ng2
               (op_var_name (row_index node) w2) (op_var_name (col_index node) w2) w2 of
          (p3, g3, ng3, w3) \<Rightarrow>
            (p1 + p2 + p3, g2, ng3,
             st\<lparr>m_generated := g3, m_var_name := op_var_name (mat node) w3\<rparr>, w3))"
  using assms
  by (auto simp add: get_kernel_parts_def get_kernel_parts_lhs_def Let_def split_def)

theorem generation_again_on_marked_node_witness:
  "fst (snd (get_kernel_parts (scenario_node (\<lambda>i j. Elem ())) Map.empty 0 ''i'' ''j'' False
               (initial_state, empty_world)))
      (this_ptr (scenario_node (\<lambda>i j. Elem ()))) \<noteq> None
   \<and> second_get_kernel_parts (scenario_node (\<lambda>i j. Elem ())) Map.empty 0 ''i'' ''j'' False
        (initial_state, empty_world)
      = (0, snd (get_kernel_parts (scenario_node (\<lambda>i j. Elem ())) Map.empty 0 ''i'' ''j'' False
                   (initial_state, empty_world)))
   \<and> fst (get_kernel_parts_lhs (scenario_node (\<lambda>i j. Elem ())) [0 \<mapsto> []] 0 ''i'' ''j''
        (initial_state, empty_world))
      = Kernel_parts [Arg_global ''var1'', Arg_global ''var2'', Arg_global ''var3'']
          [Load_elem ''var1'' ''i'' ''j'', Load_elem ''var2'' ''i'' ''j'',
           Lhs_elem ''var3'' ''var1'' ''var2'']"
proof -
  let ?n = "scenario_node (\<lambda>i j. Elem ())"
  let ?g = "[0 \<mapsto> [], 2 \<mapsto> [], 3 \<mapsto> []] :: dedup_map"
  have marked: "?g (this_ptr ?n) \<noteq> None" and marked': "[0 \<mapsto> []] (this_ptr ?n) \<noteq> None"
    by (simp_all add: scenario_node_def)
  note again = generation_again_on_marked_node [of ?g ?n 3 "''i''" "''j''" False
      "\<lparr>m_var_name = ''var3'', m_generated = [1 \<mapsto> []]\<rparr>"
      "empty_world\<lparr>lw_var_name := (lw_var_name empty_world)(2 := ''var1'', 3 := ''var2'', 1 := ''var3'')\<rparr>"]
  have first: "fst (snd (get_kernel_parts ?n Map.empty 0 ''i'' ''j'' False
               (initial_state, empty_world))) (this_ptr ?n) \<noteq> None"
    unfolding get_kernel_parts_scenario by (simp add: scenario_node_def)
  have second: "second_get_kernel_parts ?n Map.empty 0 ''i'' ''j'' False (initial_state, empty_world)
      = (0, snd (get_kernel_parts ?n Map.empty 0 ''i'' ''j'' False (initial_state, empty_world)))"
    using again marked by (simp add: second_get_kernel_parts_def get_kernel_parts_scenario)
  have lhs: "fst (get_kernel_parts_lhs ?n [0 \<mapsto> []] 0 ''i'' ''j'' (initial_state, empty_world))
      = Kernel_parts [Arg_global ''var1'', Arg_global ''var2'', Arg_global ''var3'']
          [Load_elem ''var1'' ''i'' ''j'', Load_elem ''var2'' ''i'' ''j'',
           Lhs_elem ''var3'' ''var1'' ''var2'']"
    using marked' generation_again_on_marked_node [of "[0 \<mapsto> []]" ?n 0 "''i''" "''j''" False
        initial_state empty_world]
    by (simp add: scenario_node_def load_op_def generate_def initial_state_def Let_def
        plus_kernel_parts_def string_of_nat_small del: string_of_nat.simps)
  from first second lhs show ?thesis
    by blast
qed

subsection \<open>Views\<close>

text \<open>
  Claim C5. Whatever the four diagonal arguments given to \<^verbatim>\<open>set_view\<close> of the node, the
  call it makes on the matrix operand is \<^verbatim>\<open>set_view\<close> with the least \<^verbatim>\<open>int\<close> for both
  bottom diagonals and the greatest \<^verbatim>\<open>int\<close> for both top diagonals, and the state after
  is the one that call leaves.
\<close>

theorem set_view_forces_entire:
  "calls_set_view node b t bz tz w = [(Mat, Set_view int_min int_max int_min int_max)]
   \<and> set_view node b t bz tz w = op_set_view (mat node) int_min int_max int_min int_max w
   \<and> int_min = - (2 ^ 31) \<and> int_max = 2 ^ 31 - 1"
  unfolding calls_set_view_def set_view_observe
  by (simp add: set_view_def int_min_def int_max_def)

text \<open>
  Claim C10 as stated, that \<^verbatim>\<open>set_view\<close> of the node leaves the view state of the index
  operands unchanged for every node, fails where an index operand shares its matrix with
  the matrix operand. The factory returns such a node for \<^verbatim>\<open>indexing(A, A, C)\<close>; the view
  of its row index, the leaf on the matrix at address 2, is the main diagonal before
  \<^verbatim>\<open>set_view\<close> of the node and unrestricted after it.
\<close>

theorem set_view_changes_view_of_shared_index:
  "indexing (- 1) as_load copy_load 0
      (2, scenario_row_index) (2, scenario_row_index) (3, scenario_col_index) diagonal_world
     = Inr aliased_node
   \<and> row_index aliased_node = load_op 2 scenario_row_index
   \<and> lw_view diagonal_world 2 = (0, 0)
   \<and> lw_view (set_view aliased_node 0 0 0 0 diagonal_world) 2 = (int_min, int_max)
   \<and> lw_view (set_view aliased_node 0 0 0 0 diagonal_world) 2 \<noteq> lw_view diagonal_world 2"
proof (intro conjI)
  show "indexing (- 1) as_load copy_load 0
      (2, scenario_row_index) (2, scenario_row_index) (3, scenario_col_index) diagonal_world
     = Inr aliased_node"
    by (simp add: indexing_def indexing_ctor_def as_load_def copy_load_def aliased_node_def
        check_size_match_def load_op_def scenario_row_index_def scenario_col_index_def)
  show "row_index aliased_node = load_op 2 scenario_row_index"
    by (simp add: aliased_node_def)
  show "lw_view diagonal_world 2 = (0, 0)"
    by (simp add: diagonal_world_def)
  show after: "lw_view (set_view aliased_node 0 0 0 0 diagonal_world) 2 = (int_min, int_max)"
    by (simp add: set_view_def aliased_node_def load_op_def)
  show "lw_view (set_view aliased_node 0 0 0 0 diagonal_world) 2 \<noteq> lw_view diagonal_world 2"
    unfolding after by (simp add: diagonal_world_def int_min_def)
qed

text \<open>
  Claim C10, amended. \<^verbatim>\<open>set_view\<close> of the node calls no member function of the row
  index or of the column index: the one call it makes is on the matrix operand.
  Whatever is read from the state, such as the view of an index operand, is left
  unchanged by \<^verbatim>\<open>set_view\<close> of the node exactly when the matrix operand's own
  \<^verbatim>\<open>set_view\<close> to the unrestricted range leaves it unchanged: so it is for an index
  operand that shares no state with the matrix operand, and not for one that loads the
  same matrix.
\<close>

theorem set_view_calls_matrix_operand_only:
  "filter (\<lambda>c. fst c \<noteq> Mat) (calls_set_view node b t bz tz w) = []
   \<and> map fst (calls_set_view node b t bz tz w) = [Mat]
   \<and> (view_of (op_set_view (mat node) int_min int_max int_min int_max w) = view_of w \<longrightarrow>
        view_of (set_view node b t bz tz w) = view_of w)
   \<and> (view_of (set_view node b t bz tz w) = view_of w \<longrightarrow>
        view_of (op_set_view (mat node) int_min int_max int_min int_max w) = view_of w)"
  unfolding calls_set_view_def set_view_observe
  by (simp add: set_view_def)

theorem set_view_calls_matrix_operand_only_witness:
  "lw_view diagonal_world 1 = (0, 0) \<and> lw_view diagonal_world 2 = (0, 0)
   \<and> lw_view diagonal_world 3 = (0, 0)
   \<and> lw_view (set_view (scenario_node (\<lambda>i j. Elem ())) 5 6 7 8 diagonal_world) 1
       = (int_min, int_max)
   \<and> lw_view (set_view (scenario_node (\<lambda>i j. Elem ())) 5 6 7 8 diagonal_world) 2 = (0, 0)
   \<and> lw_view (set_view (scenario_node (\<lambda>i j. Elem ())) 5 6 7 8 diagonal_world) 3 = (0, 0)
   \<and> map fst (calls_set_view (scenario_node (\<lambda>i j. Elem ())) 5 6 7 8 diagonal_world) = [Mat]"
proof -
  let ?n = "scenario_node (\<lambda>i j. Elem ())"
  have before: "lw_view diagonal_world 1 = (0, 0)" "lw_view diagonal_world 2 = (0, 0)"
    "lw_view diagonal_world 3 = (0, 0)"
    by (simp_all add: diagonal_world_def)
  have mat_call: "lw_view (op_set_view (mat ?n) int_min int_max int_min int_max diagonal_world) a
      = lw_view diagonal_world a" if "a \<noteq> 1" for a
    using that by (simp add: scenario_node_def load_op_def)
  have row: "lw_view (set_view ?n 5 6 7 8 diagonal_world) 2 = lw_view diagonal_world 2"
    using set_view_calls_matrix_operand_only [of ?n 5 6 7 8 diagonal_world "\<lambda>w. lw_view w 2"]
      mat_call [of 2]
    by simp
  have col: "lw_view (set_view ?n 5 6 7 8 diagonal_world) 3 = lw_view diagonal_world 3"
    using set_view_calls_matrix_operand_only [of ?n 5 6 7 8 diagonal_world "\<lambda>w. lw_view w 3"]
      mat_call [of 3]
    by simp
  have calls: "map fst (calls_set_view ?n 5 6 7 8 diagonal_world) = [Mat]"
    using set_view_calls_matrix_operand_only [of ?n 5 6 7 8 diagonal_world "\<lambda>w. lw_view w 3"]
    by simp
  have mat_view: "lw_view (set_view ?n 5 6 7 8 diagonal_world) 1 = (int_min, int_max)"
    by (simp add: set_view_def scenario_node_def load_op_def)
  from before row col calls mat_view show ?thesis
    by simp
qed

subsection \<open>Shape\<close>

text \<open>
  Claim C6. For a node the constructor has returned, \<^verbatim>\<open>rows()\<close> is the greater of the
  rows of the row index and of the column index, and \<^verbatim>\<open>cols()\<close> the greater of their
  columns. The constructor returns a node only when, on each axis, the two sizes are equal
  or one of them is the dynamic sentinel; with a negative sentinel, the index that is
  broadcast along an axis gives way to the size of the other.
\<close>

theorem shape_is_max_of_index_shapes:
  "indexing_ctor dynamic a m r c w = Inr node \<Longrightarrow>
     rows node w = max (op_rows r w) (op_rows c w)
     \<and> cols node w = max (op_cols r w) (op_cols c w)
     \<and> rows node w = max (op_rows (row_index node) w) (op_rows (col_index node) w)
     \<and> cols node w = max (op_cols (row_index node) w) (op_cols (col_index node) w)"
  by (drule indexing_ctor_Inr) (simp add: rows_def cols_def)

theorem shape_is_max_of_index_shapes_witness:
  "indexing_ctor (- 1) 0 (load_op 1 (scenario_mat (\<lambda>i j. Elem ())))
      (dynamic_rows_index 2 2) (load_op 3 scenario_col_index) empty_world =
     Inr \<lparr>this_ptr = 0, mat = load_op 1 (scenario_mat (\<lambda>i j. Elem ())),
          row_index = dynamic_rows_index 2 2, col_index = load_op 3 scenario_col_index\<rparr>
   \<and> rows \<lparr>this_ptr = 0, mat = load_op 1 (scenario_mat (\<lambda>i j. Elem ())),
          row_index = dynamic_rows_index 2 2, col_index = load_op 3 scenario_col_index\<rparr>
        empty_world = 2
   \<and> cols \<lparr>this_ptr = 0, mat = load_op 1 (scenario_mat (\<lambda>i j. Elem ())),
          row_index = dynamic_rows_index 2 2, col_index = load_op 3 scenario_col_index\<rparr>
        empty_world = 2"
proof -
  have built: "indexing_ctor (- 1) 0 (load_op 1 (scenario_mat (\<lambda>i j. Elem ())))
      (dynamic_rows_index 2 2) (load_op 3 scenario_col_index) empty_world =
     Inr \<lparr>this_ptr = 0, mat = load_op 1 (scenario_mat (\<lambda>i j. Elem ())),
          row_index = dynamic_rows_index 2 2, col_index = load_op 3 scenario_col_index\<rparr>"
    by (simp add: indexing_ctor_def check_size_match_def load_op_def dynamic_rows_index_def
        scenario_col_index_def)
  show ?thesis
    using built shape_is_max_of_index_shapes [OF built]
    by (simp add: load_op_def dynamic_rows_index_def scenario_col_index_def)
qed

subsection \<open>Unique matrix accesses\<close>

text \<open>
  Claim C7. \<^verbatim>\<open>get_unique_matrix_accesses\<close> first appends the ids of the matrix operand,
  computed with an empty id map of its own from 0 and shifted by the incoming
  \<^verbatim>\<open>next_id\<close>, then advances \<^verbatim>\<open>next_id\<close> by the count \<^verbatim>\<open>next_id2\<close> of the matrix
  operand's distinct accesses, and then lets the row index and the column index append
  theirs against the caller's id map. This is so when no addition overflows: the incoming
  \<^verbatim>\<open>next_id\<close> is not negative and, advanced by the access counts of the three operands,
  stays an \<^verbatim>\<open>int\<close>. When moreover the operands keep the contract of the ids and the ids
  of the caller's map are below \<^verbatim>\<open>next_id\<close>, the matrix operand's ids are exactly the
  range from \<^verbatim>\<open>next_id\<close> up to the advanced \<^verbatim>\<open>next_id\<close>, and neither the ids the index
  operands append nor the ids of the id map handed back fall into it; the \<^verbatim>\<open>next_id\<close>
  handed back is not below it.
\<close>

theorem matrix_access_ids_in_own_range:
  assumes m: "allocates_ids (mat node) w"
    and r: "allocates_ids (row_index node) w"
    and c: "allocates_ids (col_index node) w"
    and inv: "ran id_map \<subseteq> {..<next_id}"
    and nonneg: "0 \<le> next_id"
    and room: "next_id + access_count (mat node) w + access_count (row_index node) w
                 + access_count (col_index node) w \<le> int_max"
  shows "case op_get_unique_matrix_accesses (mat node) [] Map.empty 0 w of
     (uids2, id_map2, next_id2) \<Rightarrow>
       get_unique_matrix_accesses node uids id_map next_id w =
         (case op_get_unique_matrix_accesses (row_index node)
                 (uids @ map (\<lambda>i. i + next_id) uids2) id_map (next_id + next_id2) w of
            (uids3, id_map3, next_id3) \<Rightarrow>
               op_get_unique_matrix_accesses (col_index node) uids3 id_map3 next_id3 w)
       \<and> set uids2 = {0..<next_id2} \<and> int (card (set uids2)) = next_id2
       \<and> set (map (\<lambda>i. i + next_id) uids2) = {next_id..<next_id + next_id2}
       \<and> (case get_unique_matrix_accesses node uids id_map next_id w of
            (uids', id_map', next_id') \<Rightarrow>
              next_id + next_id2 \<le> next_id' \<and> next_id' \<le> int_max
              \<and> ran id_map' \<inter> {next_id..<next_id + next_id2} = {}
              \<and> (\<exists>idx. uids' = uids @ map (\<lambda>i. i + next_id) uids2 @ idx
                     \<and> set idx \<inter> {next_id..<next_id + next_id2} = {}))"
proof -
  obtain uids2 id_map2 next_id2 where m2:
    "op_get_unique_matrix_accesses (mat node) [] Map.empty 0 w = (uids2, id_map2, next_id2)"
    using prod_cases3 by blast
  have count_m: "access_count (mat node) w = next_id2"
    by (simp add: access_count_def m2)
  note m_count = allocates_ids_count [OF m, unfolded count_m]
  note r_count = allocates_ids_count [OF r]
  note c_count = allocates_ids_count [OF c]
  have m_pre: "(0::int) \<le> 0" "0 + access_count (mat node) w \<le> int_max"
    using m_count by (simp_all add: count_m)
  from allocates_idsD(4) [OF m m_pre m2]
  have m_set: "set uids2 = {0..<next_id2}"
    by auto
  have m_card: "int (card (set uids2)) = next_id2"
    using m_count by (simp add: m_set)
  have shift: "map (\<lambda>i. int_add i next_id) uids2 = map (\<lambda>i. i + next_id) uids2"
  proof (rule map_cong [OF refl])
    fix i
    assume "i \<in> set uids2"
    then have "0 \<le> i" and "i < next_id2"
      by (simp_all add: m_set)
    then show "int_add i next_id = i + next_id"
      using nonneg room r_count c_count by (intro int_add_nonneg) (simp_all add: count_m)
  qed
  have advance: "int_add next_id next_id2 = next_id + next_id2"
    using nonneg m_count room r_count c_count by (intro int_add_nonneg) (simp_all add: count_m)
  let ?u1 = "uids @ map (\<lambda>i. i + next_id) uids2"
  let ?n1 = "next_id + next_id2"
  obtain uids3 id_map3 next_id3 where r3:
    "op_get_unique_matrix_accesses (row_index node) ?u1 id_map ?n1 w =
       (uids3, id_map3, next_id3)"
    using prod_cases3 by blast
  obtain uids4 id_map4 next_id4 where c4:
    "op_get_unique_matrix_accesses (col_index node) uids3 id_map3 next_id3 w =
       (uids4, id_map4, next_id4)"
    using prod_cases3 by blast
  have r_pre: "0 \<le> ?n1" "?n1 + access_count (row_index node) w \<le> int_max"
    using nonneg m_count room c_count by (simp_all add: count_m)
  note r_le = allocates_idsD(1) [OF r r_pre r3] and r_up = allocates_idsD(2) [OF r r_pre r3]
    and r_ran = allocates_idsD(3) [OF r r_pre r3]
  from allocates_idsD(4) [OF r r_pre r3]
  obtain new3 where r_u: "uids3 = ?u1 @ new3"
    and r_new: "set new3 \<subseteq> ran id_map \<union> {?n1..<next_id3}"
    by auto
  have c_pre: "0 \<le> next_id3" "next_id3 + access_count (col_index node) w \<le> int_max"
    using r_pre(1) r_le r_up room by (simp_all add: count_m)
  note c_le = allocates_idsD(1) [OF c c_pre c4] and c_up = allocates_idsD(2) [OF c c_pre c4]
    and c_ran = allocates_idsD(3) [OF c c_pre c4]
  from allocates_idsD(4) [OF c c_pre c4]
  obtain new4 where c_u: "uids4 = uids3 @ new4"
    and c_new: "set new4 \<subseteq> ran id_map3 \<union> {next_id3..<next_id4}"
    by auto
  have g: "get_unique_matrix_accesses node uids id_map next_id w = (uids4, id_map4, next_id4)"
    by (simp add: get_unique_matrix_accesses_def m2 shift advance r3 c4)
  have img: "set (map (\<lambda>i. i + next_id) uids2) = {next_id..<next_id + next_id2}"
    by (simp add: m_set shift_range add.commute)
  have below: "i < next_id" if "i \<in> ran id_map" for i
    using inv that by auto
  have ran3: "i < next_id \<or> ?n1 \<le> i" if "i \<in> ran id_map3" for i
    using r_ran below that by fastforce
  have ran4: "i < next_id \<or> ?n1 \<le> i" if "i \<in> ran id_map4" for i
    using c_ran ran3 r_le that by fastforce
  have n3: "i < next_id \<or> ?n1 \<le> i" if "i \<in> set new3" for i
    using r_new below that by fastforce
  have n4: "i < next_id \<or> ?n1 \<le> i" if "i \<in> set new4" for i
    using c_new ran3 r_le that by fastforce
  have ran4': "ran id_map4 \<inter> {next_id..<?n1} = {}"
    using ran4 by fastforce
  have idx: "set (new3 @ new4) \<inter> {next_id..<?n1} = {}"
    using n3 n4 by fastforce
  have le: "?n1 \<le> next_id4" and up: "next_id4 \<le> int_max"
    using r_le c_le c_up c_pre(2) c_count by simp_all
  have ex: "\<exists>idx. uids4 = uids @ map (\<lambda>i. i + next_id) uids2 @ idx
      \<and> set idx \<inter> {next_id..<?n1} = {}"
    using idx r_u c_u by (intro exI [of _ "new3 @ new4"]) simp
  show ?thesis
    unfolding m2 g r3 prod.case c4
    using m_set m_card img ran4' ex le up by blast
qed

theorem matrix_access_ids_in_own_range_witness:
  "ran [5 \<mapsto> (0::int)] \<subseteq> {..<1}
   \<and> get_unique_matrix_accesses (scenario_node (\<lambda>i j. Elem ())) [0] [5 \<mapsto> 0] 1 empty_world =
       ([0, 1, 2, 3], [5 \<mapsto> 0, 2 \<mapsto> 2, 3 \<mapsto> 3], 4)
   \<and> set (map (\<lambda>i. i + 1) [0::int]) = {1..<1 + 1}"
proof -
  let ?n = "scenario_node (\<lambda>i j. Elem ())"
  have m: "allocates_ids (mat ?n) empty_world"
    and r: "allocates_ids (row_index ?n) empty_world"
    and c: "allocates_ids (col_index ?n) empty_world"
    by (simp_all add: scenario_node_def load_op_allocates_ids)
  have inv: "ran [5 \<mapsto> (0::int)] \<subseteq> {..<1}"
    by simp
  have room: "1 + access_count (mat ?n) empty_world + access_count (row_index ?n) empty_world
                 + access_count (col_index ?n) empty_world \<le> int_max"
    by (simp add: scenario_node_def access_count_load_op int_max_def)
  have "get_unique_matrix_accesses ?n [0] [5 \<mapsto> 0] 1 empty_world =
       ([0, 1, 2, 3], [5 \<mapsto> 0, 2 \<mapsto> 2, 3 \<mapsto> 3], 4)
     \<and> set (map (\<lambda>i. i + 1) [0::int]) = {1..<1 + 1}"
    using matrix_access_ids_in_own_range [OF m r c inv _ room, of "[0]"]
    by (simp add: scenario_node_def load_op_def int_add_def int_min_def)
  with inv show ?thesis
    by blast
qed

subsection \<open>The factory\<close>

text \<open>
  Claim C8. The factory \<^verbatim>\<open>indexing\<close> constructs the node from the deep copy of the
  operation form of the matrix expression, and from the operation forms of the two index
  expressions as they are, not copied. (A deep copy of an indexing node is in turn
  constructed from the deep copies of its three operands.)
\<close>

theorem factory_copies_matrix_operand_only:
  "indexing dynamic as_operation_cl copy a m r c w =
     indexing_ctor dynamic a (copy (as_operation_cl m)) (as_operation_cl r) (as_operation_cl c) w
   \<and> (indexing dynamic as_operation_cl copy a m r c w = Inr node \<longrightarrow>
        mat node = copy (as_operation_cl m) \<and> row_index node = as_operation_cl r
        \<and> col_index node = as_operation_cl c \<and> this_ptr node = a)
   \<and> (deep_copy dynamic copy a' node w = Inr node' \<longrightarrow>
        mat node' = copy (mat node) \<and> row_index node' = copy (row_index node)
        \<and> col_index node' = copy (col_index node))"
proof (intro conjI impI)
  show eq: "indexing dynamic as_operation_cl copy a m r c w =
     indexing_ctor dynamic a (copy (as_operation_cl m)) (as_operation_cl r) (as_operation_cl c) w"
    by (simp add: indexing_def)
  {
    assume "indexing dynamic as_operation_cl copy a m r c w = Inr node"
    then have "node = \<lparr>this_ptr = a, mat = copy (as_operation_cl m),
        row_index = as_operation_cl r, col_index = as_operation_cl c\<rparr>"
      unfolding eq by (rule indexing_ctor_Inr)
    then show "mat node = copy (as_operation_cl m)" and "row_index node = as_operation_cl r"
      and "col_index node = as_operation_cl c" and "this_ptr node = a"
      by simp_all
  }
  {
    assume "deep_copy dynamic copy a' node w = Inr node'"
    then have "node' = \<lparr>this_ptr = a', mat = copy (mat node),
        row_index = copy (row_index node), col_index = copy (col_index node)\<rparr>"
      unfolding deep_copy_def Let_def by (rule indexing_ctor_Inr)
    then show "mat node' = copy (mat node)" and "row_index node' = copy (row_index node)"
      and "col_index node' = copy (col_index node)"
      by simp_all
  }
qed

theorem factory_copies_matrix_operand_only_witness:
  "indexing (- 1) as_load copy_load 0 (1, scenario_mat (\<lambda>i j. Elem ()))
      (2, scenario_row_index) (3, scenario_col_index) empty_world
     = Inr (scenario_node (\<lambda>i j. Elem ()))
   \<and> mat (scenario_node (\<lambda>i j. Elem ())) = copy_load (as_load (1, scenario_mat (\<lambda>i j. Elem ())))
   \<and> row_index (scenario_node (\<lambda>i j. Elem ())) = as_load (2, scenario_row_index)
   \<and> col_index (scenario_node (\<lambda>i j. Elem ())) = as_load (3, scenario_col_index)
   \<and> deep_copy (- 1) copy_load 7 (scenario_node (\<lambda>i j. Elem ())) empty_world
       = Inr ((scenario_node (\<lambda>i j. Elem ()))\<lparr>this_ptr := 7\<rparr>)
   \<and> mat ((scenario_node (\<lambda>i j. Elem ()))\<lparr>this_ptr := 7\<rparr>)
       = copy_load (mat (scenario_node (\<lambda>i j. Elem ())))"
proof -
  have built: "indexing (- 1) as_load copy_load 0 (1, scenario_mat (\<lambda>i j. Elem ()))
      (2, scenario_row_index) (3, scenario_col_index) empty_world
     = Inr (scenario_node (\<lambda>i j. Elem ()))"
    by (simp add: indexing_def indexing_ctor_def as_load_def copy_load_def scenario_node_def
        check_size_match_def load_op_def scenario_row_index_def scenario_col_index_def)
  have copied: "deep_copy (- 1) copy_load 7 (scenario_node (\<lambda>i j. Elem ())) empty_world
       = Inr ((scenario_node (\<lambda>i j. Elem ()))\<lparr>this_ptr := 7\<rparr>)"
    by (simp add: deep_copy_def indexing_ctor_def copy_load_def scenario_node_def
        check_size_match_def load_op_def scenario_row_index_def scenario_col_index_def)
  note factory =
      factory_copies_matrix_operand_only [of "- 1" as_load copy_load 0
        "(1, scenario_mat (\<lambda>i j. Elem ()))" "(2, scenario_row_index)"
        "(3, scenario_col_index)" empty_world "scenario_node (\<lambda>i j. Elem ())"
        7 "(scenario_node (\<lambda>i j. Elem ()))\<lparr>this_ptr := 7\<rparr>"]
  from factory built
  have operands: "mat (scenario_node (\<lambda>i j. Elem ())) =
        copy_load (as_load (1, scenario_mat (\<lambda>i j. Elem ())))
      \<and> row_index (scenario_node (\<lambda>i j. Elem ())) = as_load (2, scenario_row_index)
      \<and> col_index (scenario_node (\<lambda>i j. Elem ())) = as_load (3, scenario_col_index)"
    by blast
  from factory copied
  have "mat ((scenario_node (\<lambda>i j. Elem ()))\<lparr>this_ptr := 7\<rparr>)
       = copy_load (mat (scenario_node (\<lambda>i j. Elem ())))"
    by blast
  with built copied operands show ?thesis
    by blast
qed

subsection \<open>Events\<close>

text \<open>
  Claim C9. \<^verbatim>\<open>add_write_event(e)\<close> of the node adds \<open>e\<close> as a read event to the row index,
  then as a read event to the column index, then as a write event to the matrix operand,
  and makes no other call: no index operand receives a write event.
\<close>

theorem write_event_reads_indices_writes_matrix:
  "calls_add_write_event node e w =
     [(Row_index, Add_read_event e), (Col_index, Add_read_event e), (Mat, Add_write_event e)]
   \<and> (Row_index, Add_write_event e') \<notin> set (calls_add_write_event node e w)
   \<and> (Col_index, Add_write_event e') \<notin> set (calls_add_write_event node e w)
   \<and> add_write_event node e w =
       op_add_write_event (mat node) e
         (op_add_read_event (col_index node) e (op_add_read_event (row_index node) e w))"
  unfolding calls_add_write_event_def add_write_event_observe
  by (simp add: add_write_event_def)

end
